theory Spec2Isabelle
  imports Complex_Main "HOL-Library.Sublist" "HOL-Library.AList"
begin

section \<open>Python values and exceptions\<close>

text \<open>
  Every \<^verbatim>\<open>raise\<close> of the sources, and every exception of the interpreter or of a library
  call that the sources can run into, is a value of \<open>py_error\<close>. A function that can
  raise returns \<open>py_error + 'a\<close>; a method that also writes to \<^verbatim>\<open>self\<close> returns the
  outcome together with the object as it is left behind, also when it raised.
\<close>

datatype py_error =
    NameError string
  | ValueError string
  | TypeError string
  | KeyError string
  | IndexError string
  | AttributeError string
  | NotFittedError
  | OSError string
  | HTTPException nat string

text \<open>
  A NumPy float is a finite value or one of the IEEE special values. Finite values are
  exact reals here: rounding is not modelled, the special values are, since dividing
  by a row count of zero produces them.
\<close>

datatype npfloat = Fin real | PosInf | NegInf | NaN

text \<open>\<^verbatim>\<open>a > b\<close> on floats: every comparison with NaN is false.\<close>

fun np_gt :: "npfloat \<Rightarrow> npfloat \<Rightarrow> bool" where
  "np_gt NaN b = False"
| "np_gt a NaN = False"
| "np_gt (Fin a) (Fin b) = (b < a)"
| "np_gt (Fin a) PosInf = False"
| "np_gt (Fin a) NegInf = True"
| "np_gt PosInf PosInf = False"
| "np_gt PosInf b = True"
| "np_gt NegInf b = False"

text \<open>
  \<^verbatim>\<open>counts / n\<close> for a Series of non-negative integer counts and an integer \<open>n\<close>:
  true division, which does not raise on a zero divisor but yields \<open>nan\<close> for
  \<open>0 / 0\<close> and \<open>inf\<close> for a positive count.
\<close>

definition np_true_divide :: "nat \<Rightarrow> nat \<Rightarrow> npfloat" where
  "np_true_divide a b =
     (if b = 0 then (if a = 0 then NaN else PosInf) else Fin (real a / real b))"

section \<open>Tables\<close>

text \<open>
  A \<^verbatim>\<open>pandas.DataFrame\<close>: \<open>n_rows\<close> is \<^verbatim>\<open>len(data)\<close>, the length of the index, and
  \<open>columns\<close> lists the labelled columns in order. A cell is missing (\<^verbatim>\<open>None\<close> or
  \<^verbatim>\<open>NaN\<close>), a number or a string.
\<close>

datatype cell = Missing | Number real | Text string

datatype dtype = Int64 | Float64 | Bool | Object

record series =
  dtype :: dtype
  cells :: "cell list"

record dataframe =
  n_rows :: nat
  columns :: "(string \<times> series) list"

fun str_of_dtype :: "dtype \<Rightarrow> string" where
  "str_of_dtype Int64 = ''int64''"
| "str_of_dtype Float64 = ''float64''"
| "str_of_dtype Bool = ''bool''"
| "str_of_dtype Object = ''object''"

definition labels :: "dataframe \<Rightarrow> string list" where
  "labels data = map fst (columns data)"

text \<open>\<^verbatim>\<open>data.isnull().sum()\<close>, for one column.\<close>

definition isnull_sum :: "series \<Rightarrow> nat" where
  "isnull_sum s = length (filter (\<lambda>c. c = Missing) (cells s))"

text \<open>
  \<^verbatim>\<open>data[col].dtype\<close>. Indexing with an absent label raises \<^verbatim>\<open>KeyError\<close>; with a
  label that several columns carry it returns a DataFrame, which has no attribute
  \<^verbatim>\<open>dtype\<close>.
\<close>

definition column_dtype :: "dataframe \<Rightarrow> string \<Rightarrow> py_error + dtype" where
  "column_dtype data col =
     (case filter (\<lambda>c. fst c = col) (columns data) of
        [] \<Rightarrow> Inl (KeyError col)
      | [c] \<Rightarrow> Inr (dtype (snd c))
      | c # c' # cs \<Rightarrow> Inl (AttributeError ''dtype''))"

section \<open>Data validation (src/data/validation.py)\<close>

text \<open>
  \<^verbatim>\<open>self.validation_report\<close> is a dict that the three checks write under one key each;
  a key that no check has written yet is absent (\<open>None\<close>).
\<close>

record validation_report =
  missing_columns :: "string list option"
  high_missing_columns :: "(string \<times> npfloat) list option"
  type_mismatches :: "(string \<times> string \<times> string) list option"

record validator =
  schema :: "(string \<times> string) list"
  validation_report :: validation_report

text \<open>\<^verbatim>\<open>DataValidation.__init__\<close>: \<^verbatim>\<open>schema or {}\<close>, and an empty report.\<close>

definition new_validator :: "(string \<times> string) list option \<Rightarrow> validator" where
  "new_validator sch =
     \<lparr>schema = (case sch of None \<Rightarrow> [] | Some s \<Rightarrow> s),
      validation_report =
        \<lparr>missing_columns = None, high_missing_columns = None, type_mismatches = None\<rparr>\<rparr>"

definition validate_columns ::
  "validator \<Rightarrow> dataframe \<Rightarrow> string list \<Rightarrow> bool \<times> validator" where
  "validate_columns self data required_columns =
     (let missing = filter (\<lambda>col. col \<notin> set (labels data)) required_columns in
      if missing \<noteq> [] then
        (False, self\<lparr>validation_report :=
                  (validation_report self)\<lparr>missing_columns := Some missing\<rparr>\<rparr>)
      else
        (True, self\<lparr>validation_report :=
                  (validation_report self)\<lparr>missing_columns := Some []\<rparr>\<rparr>))"

definition validate_missing_values ::
  "validator \<Rightarrow> dataframe \<Rightarrow> npfloat \<Rightarrow> bool \<times> validator" where
  "validate_missing_values self data threshold =
     (let missing_ratios =
            map (\<lambda>c. (fst c, np_true_divide (isnull_sum (snd c)) (n_rows data)))
              (columns data);
          problematic = filter (\<lambda>c. np_gt (snd c) threshold) missing_ratios in
      if length problematic > 0 then
        (False, self\<lparr>validation_report :=
                  (validation_report self)\<lparr>high_missing_columns := Some problematic\<rparr>\<rparr>)
      else
        (True, self\<lparr>validation_report :=
                  (validation_report self)\<lparr>high_missing_columns := Some []\<rparr>\<rparr>))"

text \<open>
  The loop of \<^verbatim>\<open>validate_data_types\<close> over \<^verbatim>\<open>expected_types.items()\<close>;
  \<^verbatim>\<open>expected not in actual\<close> is the substring test on strings.
\<close>

fun type_mismatch_loop ::
  "dataframe \<Rightarrow> (string \<times> string) list \<Rightarrow> (string \<times> string \<times> string) list
     \<Rightarrow> py_error + (string \<times> string \<times> string) list" where
  "type_mismatch_loop data [] mismatches = Inr mismatches"
| "type_mismatch_loop data ((col, expected) # rest) mismatches =
     (if col \<in> set (labels data) then
        (case column_dtype data col of
           Inl e \<Rightarrow> Inl e
         | Inr d \<Rightarrow>
             (let actual = str_of_dtype d in
              if \<not> sublist expected actual then
                type_mismatch_loop data rest
                  (AList.update col (expected, actual) mismatches)
              else type_mismatch_loop data rest mismatches))
      else type_mismatch_loop data rest mismatches)"

definition validate_data_types ::
  "validator \<Rightarrow> dataframe \<Rightarrow> (string \<times> string) list \<Rightarrow> (py_error + bool) \<times> validator" where
  "validate_data_types self data expected_types =
     (case type_mismatch_loop data expected_types [] of
        Inl e \<Rightarrow> (Inl e, self)
      | Inr mismatches \<Rightarrow>
          if mismatches \<noteq> [] then
            (Inr False, self\<lparr>validation_report :=
                  (validation_report self)\<lparr>type_mismatches := Some mismatches\<rparr>\<rparr>)
          else
            (Inr True, self\<lparr>validation_report :=
                  (validation_report self)\<lparr>type_mismatches := Some []\<rparr>\<rparr>))"

record results =
  columns_valid :: bool
  missing_valid :: bool
  types_valid :: bool
  overall_valid :: bool
  details :: validation_report

text \<open>
  \<^verbatim>\<open>if required_columns:\<close> and \<^verbatim>\<open>if expected_types:\<close> test truthiness: \<^verbatim>\<open>None\<close>
  and the empty container are both false.
\<close>

fun truthy :: "'a list option \<Rightarrow> bool" where
  "truthy None = False"
| "truthy (Some []) = False"
| "truthy (Some (x # xs)) = True"

fun given :: "'a list option \<Rightarrow> 'a list" where
  "given None = []"
| "given (Some xs) = xs"

definition validate_all ::
  "validator \<Rightarrow> dataframe \<Rightarrow> string list option \<Rightarrow> (string \<times> string) list option
     \<Rightarrow> npfloat \<Rightarrow> (py_error + results) \<times> validator" where
  "validate_all self data required_columns expected_types missing_threshold =
     (let (columns_ok, self1) =
            (if truthy required_columns
             then validate_columns self data (given required_columns)
             else (True, self));
          (missing_ok, self2) = validate_missing_values self1 data missing_threshold in
      case (if truthy expected_types
            then validate_data_types self2 data (given expected_types)
            else (Inr True, self2)) of
        (Inl e, self3) \<Rightarrow> (Inl e, self3)
      | (Inr types_ok, self3) \<Rightarrow>
          (Inr \<lparr>columns_valid = columns_ok, missing_valid = missing_ok,
                types_valid = types_ok,
                overall_valid = list_all (\<lambda>b. b) [columns_ok, missing_ok, types_ok],
                details = validation_report self3\<rparr>,
           self3))"

subsection \<open>Example tables\<close>

definition example_frame :: dataframe where
  "example_frame =
     \<lparr>n_rows = 2,
      columns = [(''a'', \<lparr>dtype = Int64, cells = [Number 1, Number 2]\<rparr>),
                 (''b'', \<lparr>dtype = Float64, cells = [Number 4, Missing]\<rparr>)]\<rparr>"

definition empty_frame :: dataframe where
  "empty_frame =
     \<lparr>n_rows = 0,
      columns = [(''a'', \<lparr>dtype = Int64, cells = []\<rparr>),
                 (''b'', \<lparr>dtype = Object, cells = []\<rparr>)]\<rparr>"

subsection \<open>Validation of a table held by reference\<close>

text \<open>
  Python passes the DataFrame by reference. The store holds every DataFrame object at
  its address, an index into the list. The validation methods only read through the
  reference they are given (\<^verbatim>\<open>data.columns\<close>, \<^verbatim>\<open>data.isnull()\<close>, \<^verbatim>\<open>len(data)\<close>,
  \<^verbatim>\<open>data[col].dtype\<close>) and contain no assignment to it.
\<close>

type_synonym frame_store = "dataframe list"

definition validate_columns_at ::
  "validator \<Rightarrow> frame_store \<Rightarrow> nat \<Rightarrow> string list \<Rightarrow> (bool \<times> validator) \<times> frame_store" where
  "validate_columns_at self store data required_columns =
     (validate_columns self (store ! data) required_columns, store)"

definition validate_missing_values_at ::
  "validator \<Rightarrow> frame_store \<Rightarrow> nat \<Rightarrow> npfloat \<Rightarrow> (bool \<times> validator) \<times> frame_store" where
  "validate_missing_values_at self store data threshold =
     (validate_missing_values self (store ! data) threshold, store)"

definition validate_data_types_at ::
  "validator \<Rightarrow> frame_store \<Rightarrow> nat \<Rightarrow> (string \<times> string) list
     \<Rightarrow> ((py_error + bool) \<times> validator) \<times> frame_store" where
  "validate_data_types_at self store data expected_types =
     (validate_data_types self (store ! data) expected_types, store)"

definition validate_all_at ::
  "validator \<Rightarrow> frame_store \<Rightarrow> nat \<Rightarrow> string list option \<Rightarrow> (string \<times> string) list option
     \<Rightarrow> npfloat \<Rightarrow> ((py_error + results) \<times> validator) \<times> frame_store" where
  "validate_all_at self store data required_columns expected_types missing_threshold =
     (validate_all self (store ! data) required_columns expected_types missing_threshold, store)"


section \<open>Model training (src/models/train.py)\<close>

subsection \<open>Python objects\<close>

text \<open>
  The values that hyperparameters and training metadata take. A \<^verbatim>\<open>**params\<close> dict is a
  map from names to values; a dict whose order of keys shows (\<^verbatim>\<open>MODELS.keys()\<close> is
  printed in the error message) is an association list.
\<close>

datatype pyval =
    PNone
  | PBool bool
  | PInt int
  | PFloat real
  | PStr string
  | PDict "(string \<times> pyval) list"

type_synonym kwargs = "string \<rightharpoonup> pyval"

text \<open>
  \<^verbatim>\<open>repr\<close> of a string without quotes, backslashes or control characters, and of a
  list of such strings, as an f-string prints \<^verbatim>\<open>list(self.MODELS.keys())\<close>.
\<close>

definition py_repr_str :: "string \<Rightarrow> string" where
  "py_repr_str s = [CHR 0x27] @ s @ [CHR 0x27]"

fun py_join :: "string \<Rightarrow> string list \<Rightarrow> string" where
  "py_join sep [] = []"
| "py_join sep [x] = x"
| "py_join sep (x # y # ys) = x @ sep @ py_join sep (y # ys)"

definition py_repr_list :: "string list \<Rightarrow> string" where
  "py_repr_list xs = ''['' @ py_join '', '' (map py_repr_str xs) @ '']''"

subsection \<open>The scikit-learn estimators\<close>

datatype model_class =
    RandomForestClassifier
  | LogisticRegression
  | DecisionTreeClassifier
  | GradientBoostingClassifier

text \<open>
  An estimator object: its class, the keyword arguments it was constructed with, and
  what \<^verbatim>\<open>fit\<close> learnt, once it has been fitted. The learnt state \<open>'f\<close> and what the
  library computes from it are not this repository's code; they are parameters:
  \<^item> \<open>init_args cls\<close>, the keyword names the constructor of \<open>cls\<close> accepts;
  \<^item> \<open>sk_fit\<close>, what fitting an estimator on features and labels learns, or raises;
  \<^item> \<open>sk_predict\<close>, the predictions of a fitted state.
\<close>

record 'f estimator =
  est_class :: model_class
  est_params :: kwargs
  fitted :: "'f option"

record feature_matrix =
  n_features :: nat
  samples :: "real list list"

record 'f sklearn =
  init_args :: "model_class \<Rightarrow> string list"
  sk_fit :: "model_class \<Rightarrow> kwargs \<Rightarrow> feature_matrix \<Rightarrow> int list \<Rightarrow> py_error + 'f"
  sk_predict :: "model_class \<Rightarrow> 'f \<Rightarrow> feature_matrix \<Rightarrow> py_error + int list"
  sk_get_params :: "model_class \<Rightarrow> kwargs \<Rightarrow> (string \<times> pyval) list"

text \<open>
  \<^verbatim>\<open>model_class(**final_params)\<close>: a constructor raises \<^verbatim>\<open>TypeError\<close> on a keyword it
  does not have, and otherwise stores the arguments unvalidated.
\<close>

definition sk_construct :: "'f sklearn \<Rightarrow> model_class \<Rightarrow> kwargs \<Rightarrow> py_error + 'f estimator" where
  "sk_construct sk cls final_params =
     (if dom final_params \<subseteq> set (init_args sk cls)
      then Inr \<lparr>est_class = cls, est_params = final_params, fitted = None\<rparr>
      else Inl (TypeError ''__init__() got an unexpected keyword argument''))"

text \<open>\<^verbatim>\<open>model.predict(X)\<close>: an estimator that was never fitted raises.\<close>

definition estimator_predict ::
  "'f sklearn \<Rightarrow> 'f estimator \<Rightarrow> feature_matrix \<Rightarrow> py_error + int list" where
  "estimator_predict sk m X =
     (case fitted m of
        None \<Rightarrow> Inl NotFittedError
      | Some f \<Rightarrow> sk_predict sk (est_class m) f X)"

subsection \<open>ModelTrainer\<close>

definition MODELS :: "(string \<times> model_class) list" where
  "MODELS =
     [(''random_forest'', RandomForestClassifier),
      (''logistic_regression'', LogisticRegression),
      (''decision_tree'', DecisionTreeClassifier),
      (''gradient_boosting'', GradientBoostingClassifier)]"

definition default_params :: "(string \<times> kwargs) list" where
  "default_params =
     [(''random_forest'', [''n_estimators'' \<mapsto> PInt 100, ''random_state'' \<mapsto> PInt 42]),
      (''logistic_regression'', [''random_state'' \<mapsto> PInt 42, ''max_iter'' \<mapsto> PInt 1000]),
      (''decision_tree'', [''random_state'' \<mapsto> PInt 42]),
      (''gradient_boosting'', [''n_estimators'' \<mapsto> PInt 100, ''random_state'' \<mapsto> PInt 42])]"

record 'f trainer =
  artifacts_path :: string
  model :: "'f estimator option"
  model_name :: "string option"
  training_info :: "(string \<times> pyval) list"

text \<open>\<^verbatim>\<open>ModelTrainer.__init__\<close>.\<close>

definition new_trainer :: "string \<Rightarrow> 'f trainer" where
  "new_trainer path =
     \<lparr>artifacts_path = path, model = None, model_name = None, training_info = []\<rparr>"

definition get_model :: "'f sklearn \<Rightarrow> string \<Rightarrow> kwargs \<Rightarrow> py_error + 'f estimator" where
  "get_model sk name params =
     (case map_of MODELS name of
        None \<Rightarrow>
          Inl (ValueError (''Unknown model: '' @ name @ ''. Available: ''
                 @ py_repr_list (map fst MODELS)))
      | Some model_class \<Rightarrow>
          (let final_params =
                 (case map_of default_params name of None \<Rightarrow> Map.empty | Some d \<Rightarrow> d)
                   ++ params
           in sk_construct sk model_class final_params))"

text \<open>
  \<^verbatim>\<open>train\<close>. The clock readings \<open>start_time\<close>, \<open>end_time\<close> (ISO strings) and their
  difference in seconds are arguments. \<^verbatim>\<open>self.model_name\<close> is assigned before
  \<^verbatim>\<open>get_model\<close> runs, \<^verbatim>\<open>self.model\<close> only after it has returned.
\<close>

definition train ::
  "'f sklearn \<Rightarrow> string \<times> string \<times> real \<Rightarrow> 'f trainer \<Rightarrow> feature_matrix \<Rightarrow> int list
     \<Rightarrow> string \<Rightarrow> kwargs \<Rightarrow> (py_error + 'f estimator) \<times> 'f trainer" where
  "train sk clock self X_train y_train name params =
     (let self1 = self\<lparr>model_name := Some name\<rparr> in
      case get_model sk name params of
        Inl e \<Rightarrow> (Inl e, self1)
      | Inr m \<Rightarrow>
          (let self2 = self1\<lparr>model := Some m\<rparr> in
           case sk_fit sk (est_class m) (est_params m) X_train y_train of
             Inl e \<Rightarrow> (Inl e, self2)
           | Inr f \<Rightarrow>
               (let m' = m\<lparr>fitted := Some f\<rparr>;
                    (start_time, end_time, duration) = clock;
                    info =
                      [(''model_name'', PStr name),
                       (''training_samples'', PInt (int (length (samples X_train)))),
                       (''features'', PInt (int (n_features X_train))),
                       (''start_time'', PStr start_time),
                       (''end_time'', PStr end_time),
                       (''duration_seconds'', PFloat duration),
                       (''parameters'', PDict (sk_get_params sk (est_class m') (est_params m')))]
                in (Inr m', self2\<lparr>model := Some m', training_info := info\<rparr>))))"

text \<open>\<^verbatim>\<open>predict\<close>.\<close>

definition predict :: "'f sklearn \<Rightarrow> 'f trainer \<Rightarrow> feature_matrix \<Rightarrow> py_error + int list" where
  "predict sk self X =
     (case model self of
        None \<Rightarrow> Inl (ValueError ''No model loaded. Train or load a model first!'')
      | Some m \<Rightarrow> estimator_predict sk m X)"

subsection \<open>Saving and loading\<close>

text \<open>
  What \<^verbatim>\<open>save_model\<close> pickles is a dict with the keys \<^verbatim>\<open>model\<close> and
  \<^verbatim>\<open>training_info\<close>; a field is \<open>None\<close> when a pickled dict lacks the key. The file
  system maps paths to file contents \<open>'b\<close> and says which paths can be written.
  \<^verbatim>\<open>joblib.dump\<close> and \<^verbatim>\<open>joblib.load\<close> are the library's: \<open>dump\<close> turns the dict into file
  contents and \<open>load\<close> reads contents back, raising on what it cannot read.
\<close>

record 'f save_data =
  sd_model :: "'f estimator option"
  sd_training_info :: "(string \<times> pyval) list option"

record 'b filesystem =
  files :: "string \<rightharpoonup> 'b"
  writable :: "string \<Rightarrow> bool"

record ('f, 'b) joblib =
  dump :: "'f save_data \<Rightarrow> 'b"
  load :: "'b \<Rightarrow> py_error + 'f save_data"

text \<open>\<^verbatim>\<open>os.path.join(a, b)\<close> on POSIX, for two components.\<close>

definition path_join :: "string \<Rightarrow> string \<Rightarrow> string" where
  "path_join a b =
     (if b \<noteq> [] \<and> hd b = CHR ''/'' then b
      else if a = [] \<or> last a = CHR ''/'' then a @ b
      else a @ ''/'' @ b)"

definition joblib_dump ::
  "('f, 'b) joblib \<Rightarrow> 'f save_data \<Rightarrow> string \<Rightarrow> 'b filesystem \<Rightarrow> py_error + 'b filesystem" where
  "joblib_dump jl v path fs =
     (if writable fs path then Inr (fs\<lparr>files := (files fs)(path \<mapsto> dump jl v)\<rparr>)
      else Inl (OSError path))"

definition joblib_load ::
  "('f, 'b) joblib \<Rightarrow> string \<Rightarrow> 'b filesystem \<Rightarrow> py_error + 'f save_data" where
  "joblib_load jl path fs =
     (case files fs path of
        None \<Rightarrow> Inl (OSError path)
      | Some content \<Rightarrow> load jl content)"

text \<open>
  The file name \<^verbatim>\<open>save_model\<close> uses: the caller's, or one made of the model name and
  \<open>timestamp\<close>, which is \<^verbatim>\<open>datetime.now().strftime("%Y%m%d_%H%M%S")\<close>. The f-string
  prints a \<^verbatim>\<open>model_name\<close> that is still \<^verbatim>\<open>None\<close> as \<^verbatim>\<open>None\<close>.
\<close>

definition model_file_name :: "string \<Rightarrow> 'f trainer \<Rightarrow> string option \<Rightarrow> string" where
  "model_file_name timestamp self filename =
     (case filename of
        None \<Rightarrow>
          ''model_'' @ (case model_name self of None \<Rightarrow> ''None'' | Some n \<Rightarrow> n)
            @ ''_'' @ timestamp @ ''.pkl''
      | Some f \<Rightarrow> f)"

definition save_model ::
  "('f, 'b) joblib \<Rightarrow> string \<Rightarrow> 'f trainer \<Rightarrow> string option \<Rightarrow> 'b filesystem
     \<Rightarrow> py_error + (string \<times> 'b filesystem)" where
  "save_model jl timestamp self filename fs =
     (case model self of
        None \<Rightarrow> Inl (ValueError ''No model to save. Train a model first!'')
      | Some m \<Rightarrow>
          (let model_path =
                 path_join (artifacts_path self) (model_file_name timestamp self filename);
               save_data = \<lparr>sd_model = Some m, sd_training_info = Some (training_info self)\<rparr>
           in case joblib_dump jl save_data model_path fs of
                Inl e \<Rightarrow> Inl e
              | Inr fs' \<Rightarrow> Inr (model_path, fs')))"

text \<open>
  \<^verbatim>\<open>load_model\<close>: \<^verbatim>\<open>save_data["model"]\<close> raises \<^verbatim>\<open>KeyError\<close> on a dict without the
  key, \<^verbatim>\<open>save_data.get("training_info", {})\<close> falls back to the empty dict.
\<close>

definition load_model ::
  "('f, 'b) joblib \<Rightarrow> 'f trainer \<Rightarrow> string \<Rightarrow> 'b filesystem
     \<Rightarrow> (py_error + 'f estimator) \<times> 'f trainer" where
  "load_model jl self model_path fs =
     (case joblib_load jl model_path fs of
        Inl e \<Rightarrow> (Inl e, self)
      | Inr save_data \<Rightarrow>
          (case sd_model save_data of
             None \<Rightarrow> (Inl (KeyError ''model''), self)
           | Some m \<Rightarrow>
               (Inr m,
                self\<lparr>model := Some m,
                     training_info :=
                       (case sd_training_info save_data of None \<Rightarrow> [] | Some i \<Rightarrow> i)\<rparr>)))"


subsection \<open>Stand-ins for the libraries, for concrete runs\<close>

text \<open>
  A library value to run the definitions on: every constructor accepts four keyword
  names, fitting learns the number of labels, and a fitted estimator predicts that
  number for every sample. The pickler stand-in stores the dict itself.
\<close>

definition stub_sklearn :: "nat sklearn" where
  "stub_sklearn =
     \<lparr>init_args = (\<lambda>cls. [''n_estimators'', ''random_state'', ''max_iter'', ''max_depth'']),
      sk_fit = (\<lambda>cls params X y. Inr (length y)),
      sk_predict = (\<lambda>cls f X. Inr (map (\<lambda>row. int f) (samples X))),
      sk_get_params = (\<lambda>cls params. [])\<rparr>"

definition stub_joblib :: "(nat, nat save_data) joblib" where
  "stub_joblib = \<lparr>dump = (\<lambda>d. d), load = (\<lambda>b. Inr b)\<rparr>"

definition example_matrix :: feature_matrix where
  "example_matrix = \<lparr>n_features = 2, samples = [[1, 2], [3, 4], [5, 6]]\<rparr>"

definition trained_trainer :: "nat trainer" where
  "trained_trainer =
     snd (train stub_sklearn (''t0'', ''t1'', 1) (new_trainer ''artifacts'')
            example_matrix [0, 1, 1] ''decision_tree'' Map.empty)"

definition empty_disk :: "(nat save_data) filesystem" where
  "empty_disk = \<lparr>files = Map.empty, writable = (\<lambda>path. True)\<rparr>"


section \<open>Model evaluation (src/models/evaluate.py)\<close>

text \<open>
  The metric functions are scikit-learn's and are parameters; each returns a value or
  raises (on label vectors of different lengths, for instance). \<open>sk_roc_auc_score\<close>
  takes the true labels and a one-dimensional score vector.
\<close>

record sk_metrics =
  sk_accuracy_score :: "int list \<Rightarrow> int list \<Rightarrow> py_error + real"
  sk_precision_score :: "int list \<Rightarrow> int list \<Rightarrow> py_error + real"
  sk_recall_score :: "int list \<Rightarrow> int list \<Rightarrow> py_error + real"
  sk_f1_score :: "int list \<Rightarrow> int list \<Rightarrow> py_error + real"
  sk_confusion_matrix :: "int list \<Rightarrow> int list \<Rightarrow> py_error + nat list list"
  sk_roc_auc_score :: "int list \<Rightarrow> real list \<Rightarrow> py_error + real"

text \<open>
  What a caller can pass as \<^verbatim>\<open>y_proba\<close>: a NumPy array of one dimension, one of two
  dimensions (with \<^verbatim>\<open>shape[1]\<close> and its rows), or an object without a \<^verbatim>\<open>shape\<close>
  attribute, such as a plain list.
\<close>

datatype proba = Array1D "real list" | Array2D nat "real list list" | NoShape

text \<open>
  The metrics dict. The key \<^verbatim>\<open>roc_auc\<close> is absent (\<open>None\<close>), null (\<open>Some None\<close>) or a
  number.
\<close>

record metrics =
  accuracy :: real
  precision :: real
  recall :: real
  f1_score :: real
  confusion_matrix :: "nat list list"
  n_classes :: nat
  samples_evaluated :: nat
  roc_auc :: "real option option"

record evaluator =
  ev_artifacts_path :: string
  ev_metrics :: "metrics option"

text \<open>
  The dict literal assigned to \<^verbatim>\<open>self.metrics\<close>: its values are computed in the order
  written, and the first call that raises ends the evaluation.
\<close>

definition metrics_dict :: "sk_metrics \<Rightarrow> int list \<Rightarrow> int list \<Rightarrow> py_error + metrics" where
  "metrics_dict sk y_true y_pred =
     (case sk_accuracy_score sk y_true y_pred of Inl e \<Rightarrow> Inl e | Inr a \<Rightarrow>
     (case sk_precision_score sk y_true y_pred of Inl e \<Rightarrow> Inl e | Inr p \<Rightarrow>
     (case sk_recall_score sk y_true y_pred of Inl e \<Rightarrow> Inl e | Inr r \<Rightarrow>
     (case sk_f1_score sk y_true y_pred of Inl e \<Rightarrow> Inl e | Inr f \<Rightarrow>
     (case sk_confusion_matrix sk y_true y_pred of Inl e \<Rightarrow> Inl e | Inr c \<Rightarrow>
        Inr \<lparr>accuracy = a, precision = p, recall = r, f1_score = f, confusion_matrix = c,
             n_classes = length (remdups y_true), samples_evaluated = length y_true,
             roc_auc = None\<rparr>)))))"

text \<open>
  The body of the \<^verbatim>\<open>try\<close>: \<^verbatim>\<open>len(y_proba.shape) > 1\<close> raises \<^verbatim>\<open>AttributeError\<close> on
  an object without a shape, and \<^verbatim>\<open>y_proba[:, 1]\<close> raises \<^verbatim>\<open>IndexError\<close> on an array
  with fewer than two columns.
\<close>

definition roc_auc_try :: "sk_metrics \<Rightarrow> int list \<Rightarrow> proba \<Rightarrow> py_error + real" where
  "roc_auc_try sk y_true y_proba =
     (case y_proba of
        NoShape \<Rightarrow> Inl (AttributeError ''shape'')
      | Array1D scores \<Rightarrow> sk_roc_auc_score sk y_true scores
      | Array2D n_columns rows \<Rightarrow>
          if 1 < n_columns then sk_roc_auc_score sk y_true (map (\<lambda>row. row ! 1) rows)
          else Inl (IndexError ''index 1 is out of bounds for axis 1''))"

definition calculate_metrics ::
  "sk_metrics \<Rightarrow> evaluator \<Rightarrow> int list \<Rightarrow> int list \<Rightarrow> proba option
     \<Rightarrow> (py_error + metrics) \<times> evaluator" where
  "calculate_metrics sk self y_true y_pred y_proba =
     (let n_classes = length (remdups y_true);
          is_binary = (n_classes = 2) in
      case metrics_dict sk y_true y_pred of
        Inl e \<Rightarrow> (Inl e, self)
      | Inr m \<Rightarrow>
          (let m' =
                 (case y_proba of
                    Some pr \<Rightarrow>
                      if is_binary then
                        (case roc_auc_try sk y_true pr of
                           Inr auc \<Rightarrow> m\<lparr>roc_auc := Some (Some auc)\<rparr>
                         | Inl e \<Rightarrow> m\<lparr>roc_auc := Some None\<rparr>)
                      else m
                  | None \<Rightarrow> m)
           in (Inr m', self\<lparr>ev_metrics := Some m'\<rparr>)))"

subsection \<open>A stand-in for the metric functions\<close>

text \<open>
  Every metric is \<open>1\<close>, the confusion matrix is empty, and the ROC-AUC is \<open>1 / 2\<close> when
  the scores are as many as the labels and raises otherwise.
\<close>

definition stub_metrics :: sk_metrics where
  "stub_metrics =
     \<lparr>sk_accuracy_score = (\<lambda>t p. Inr 1), sk_precision_score = (\<lambda>t p. Inr 1),
      sk_recall_score = (\<lambda>t p. Inr 1), sk_f1_score = (\<lambda>t p. Inr 1),
      sk_confusion_matrix = (\<lambda>t p. Inr []),
      sk_roc_auc_score =
        (\<lambda>t s. if length t = length s then Inr (1 / 2) else Inl (ValueError ''lengths''))\<rparr>"


section \<open>Serving (src/api/routes.py)\<close>

text \<open>
  The module's state is the dict that \<^verbatim>\<open>set_loaded_models\<close> installs. A handler reads
  a name that it never assigns from the module's global namespace and then from the
  builtins; a name bound in neither raises \<^verbatim>\<open>NameError\<close>. \<open>routes_names\<close> are the names
  that routes.py binds at module level: its imports, its assignments and its function
  definitions. The interpreter's builtins are a parameter.
\<close>

record 'f routes_module =
  loaded_models :: "(string \<times> 'f trainer) list"

definition default_model_name :: string where
  "default_model_name = ''random_forest''"

definition set_loaded_models :: "'f routes_module \<Rightarrow> (string \<times> 'f trainer) list \<Rightarrow> 'f routes_module" where
  "set_loaded_models m models = m\<lparr>loaded_models := models\<rparr>"

definition routes_names :: "string list" where
  "routes_names =
     [''APIRouter'', ''HTTPException'', ''np'', ''List'', ''Dict'',
      ''HealthResponse'', ''ModelInfoResponse'', ''PredictionRequest'',
      ''PredictionResponse'', ''BatchPredictionRequest'', ''BatchPredictionResponse'',
      ''ModelType'', ''router'', ''loaded_models'', ''default_model_name'',
      ''COVER_TYPE_LABELS'', ''set_loaded_models'', ''get_model'', ''health_check'',
      ''get_model_info'', ''predict'', ''predict_batch'']"

text \<open>
  What a name can evaluate to, as far as the handler's test
  \<^verbatim>\<open>model_trainer is None or model_trainer.model is None\<close> tells values apart: \<^verbatim>\<open>None\<close>,
  a \<^verbatim>\<open>ModelTrainer\<close>, or an object without an attribute \<^verbatim>\<open>model\<close>. Every name that
  routes.py binds is a module, a class, a function, a dict or a string, and so are the
  builtins.
\<close>

datatype 'f py_object = ObjNone | ObjTrainer "'f trainer" | ObjOther

definition load_global :: "string list \<Rightarrow> string \<Rightarrow> py_error + 'f py_object" where
  "load_global builtins name =
     (if name \<in> set routes_names then Inr ObjOther
      else if name \<in> set builtins then Inr ObjOther
      else Inl (NameError name))"

text \<open>\<^verbatim>\<open>get_model\<close> of routes.py: the loaded trainer of that name, or \<^verbatim>\<open>None\<close>.\<close>

definition routes_get_model :: "'f routes_module \<Rightarrow> string \<Rightarrow> 'f trainer option" where
  "routes_get_model m name = map_of (loaded_models m) name"

text \<open>\<^verbatim>\<open>str(e)\<close>, for the detail of a 400 response.\<close>

fun str_of_error :: "py_error \<Rightarrow> string" where
  "str_of_error (NameError s) = ''name '' @ py_repr_str s @ '' is not defined''"
| "str_of_error (ValueError s) = s"
| "str_of_error (TypeError s) = s"
| "str_of_error (KeyError s) = py_repr_str s"
| "str_of_error (IndexError s) = s"
| "str_of_error (AttributeError s) = s"
| "str_of_error NotFittedError = ''This estimator is not fitted yet''"
| "str_of_error (OSError s) = s"
| "str_of_error (HTTPException code detail) = detail"

text \<open>
  \<^verbatim>\<open>np.array(request.instances)\<close>: rows of one length make a two-dimensional array,
  rows of different lengths are refused.
\<close>

definition np_array :: "real list list \<Rightarrow> py_error + feature_matrix" where
  "np_array rows =
     (case rows of
        [] \<Rightarrow> Inr \<lparr>n_features = 0, samples = []\<rparr>
      | r # rs \<Rightarrow>
          if list_all (\<lambda>x. length x = length r) rs
          then Inr \<lparr>n_features = length r, samples = rows\<rparr>
          else Inl (ValueError ''inhomogeneous shape''))"

record batch_request =
  instances :: "real list list"

record batch_response =
  predictions :: "int list"
  count :: nat

text \<open>
  \<^verbatim>\<open>predict_batch\<close>. The test of \<^verbatim>\<open>model_trainer\<close> stands before the \<^verbatim>\<open>try\<close>, so
  what it raises is not turned into a 400; inside the \<^verbatim>\<open>try\<close> every exception is.
\<close>

definition predict_batch ::
  "'f sklearn \<Rightarrow> string list \<Rightarrow> 'f routes_module \<Rightarrow> batch_request \<Rightarrow> py_error + batch_response" where
  "predict_batch sk builtins m request =
     (case load_global builtins ''model_trainer'' of
        Inl e \<Rightarrow> Inl e
      | Inr ObjNone \<Rightarrow> Inl (HTTPException 503 ''Model not loaded'')
      | Inr ObjOther \<Rightarrow> Inl (AttributeError ''model'')
      | Inr (ObjTrainer model_trainer) \<Rightarrow>
          if model model_trainer = None then Inl (HTTPException 503 ''Model not loaded'')
          else
            (case np_array (instances request) of
               Inl e \<Rightarrow> Inl (HTTPException 400 (str_of_error e))
             | Inr features \<Rightarrow>
                 (case predict sk model_trainer features of
                    Inl e \<Rightarrow> Inl (HTTPException 400 (str_of_error e))
                  | Inr ps \<Rightarrow> Inr \<lparr>predictions = ps, count = length ps\<rparr>)))"

text \<open>
  The status the framework answers with: 200 for a returned response, the code of an
  \<^verbatim>\<open>HTTPException\<close>, and 500 for any other exception that leaves the handler.
\<close>

fun status_code :: "py_error + 'a \<Rightarrow> nat" where
  "status_code (Inr response) = 200"
| "status_code (Inl (HTTPException code detail)) = code"
| "status_code (Inl e) = 500"

text \<open>
  What the documentation of the endpoint and the sibling handler \<^verbatim>\<open>predict\<close> do: the
  handler first binds \<^verbatim>\<open>model_trainer = get_model(default_model_name)\<close>. This is the
  endpoint as the specification describes it, for comparison with \<open>predict_batch\<close>.
\<close>

definition predict_batch_spec ::
  "'f sklearn \<Rightarrow> 'f routes_module \<Rightarrow> batch_request \<Rightarrow> py_error + batch_response" where
  "predict_batch_spec sk m request =
     (case routes_get_model m default_model_name of
        None \<Rightarrow> Inl (HTTPException 503 ''Model not loaded'')
      | Some model_trainer \<Rightarrow>
          if model model_trainer = None then Inl (HTTPException 503 ''Model not loaded'')
          else
            (case np_array (instances request) of
               Inl e \<Rightarrow> Inl (HTTPException 400 (str_of_error e))
             | Inr features \<Rightarrow>
                 (case predict sk model_trainer features of
                    Inl e \<Rightarrow> Inl (HTTPException 400 (str_of_error e))
                  | Inr ps \<Rightarrow> Inr \<lparr>predictions = ps, count = length ps\<rparr>)))"

subsection \<open>An example request\<close>

definition example_features :: "real list" where
  "example_features =
     [2596, 51, 3, 258, 0, 510, 221, 232, 148, 6279,
      1, 0, 0, 0,
      0, 0, 0, 0, 0, 0, 0, 0, 0, 0, 0, 0, 0, 0, 0, 0, 0, 0, 0, 0,
      0, 0, 0, 0, 0, 0, 0, 0, 0, 0, 0, 0, 1, 0, 0, 0, 0, 0, 0, 0]"

definition example_module :: "nat routes_module" where
  "example_module = set_loaded_models \<lparr>loaded_models = []\<rparr> [(''random_forest'', trained_trainer)]"

definition used_builtins :: "string list" where
  "used_builtins = [''len'', ''int'', ''list'', ''str'', ''hasattr'', ''Exception'']"


section \<open>Data preprocessing (src/data/preprocessing.py)\<close>

subsection \<open>DataFrame objects in a store\<close>

text \<open>
  The preprocessing methods assign into DataFrames (\<^verbatim>\<open>data[cols] = ...\<close>), so which
  object a name refers to matters. Every DataFrame object lives in the store at its
  address; a method receives and returns addresses. \<^verbatim>\<open>data.copy()\<close> and every other
  call that returns a new DataFrame allocates at the next free address.
\<close>

definition alloc :: "frame_store \<Rightarrow> dataframe \<Rightarrow> nat \<times> frame_store" where
  "alloc store v = (length store, store @ [v])"

text \<open>
  A two-dimensional NumPy array as a transformer returns it, by columns, with its dtype.
\<close>

record ndarray =
  arr_dtype :: dtype
  arr_columns :: "cell list list"

text \<open>\<^verbatim>\<open>data.select_dtypes(include=...).columns\<close>; \<^verbatim>\<open>np.number\<close> covers the integer and
  float dtypes, not \<^verbatim>\<open>bool\<close>.\<close>

definition is_number :: "dtype \<Rightarrow> bool" where
  "is_number d = (d = Int64 \<or> d = Float64)"

definition select_dtypes :: "(dtype \<Rightarrow> bool) \<Rightarrow> dataframe \<Rightarrow> string list" where
  "select_dtypes include data = map fst (filter (\<lambda>c. include (dtype (snd c))) (columns data))"

text \<open>\<^verbatim>\<open>data[cols]\<close> for a list of labels: a new table of those columns, or \<^verbatim>\<open>KeyError\<close>.\<close>

definition frame_select :: "dataframe \<Rightarrow> string list \<Rightarrow> py_error + dataframe" where
  "frame_select data cols =
     (case filter (\<lambda>c. c \<notin> set (labels data)) cols of
        [] \<Rightarrow>
          Inr \<lparr>n_rows = n_rows data,
               columns = concat (map (\<lambda>c. filter (\<lambda>x. fst x = c) (columns data)) cols)\<rparr>
      | c # cs \<Rightarrow> Inl (KeyError c))"

text \<open>
  \<^verbatim>\<open>data[cols] = array\<close>: the array must have one column per label; each named column
  takes the array's values and dtype, and a label that is new is appended.
\<close>

definition frame_assign :: "dataframe \<Rightarrow> string list \<Rightarrow> ndarray \<Rightarrow> py_error + dataframe" where
  "frame_assign data cols arr =
     (if length (arr_columns arr) \<noteq> length cols
      then Inl (ValueError ''Columns must be same length as key'')
      else
        Inr (data\<lparr>columns :=
               fold (\<lambda>cv. AList.update (fst cv) \<lparr>dtype = arr_dtype arr, cells = snd cv\<rparr>)
                 (zip cols (arr_columns arr)) (columns data)\<rparr>))"

text \<open>
  \<^verbatim>\<open>data[col]\<close> for one label, where a Series is needed: \<^verbatim>\<open>KeyError\<close> when no column
  carries the label; when several do the result is a DataFrame, on which the uses below
  (\<^verbatim>\<open>.dtype\<close>, a label encoder) raise.
\<close>

definition frame_getitem :: "dataframe \<Rightarrow> string \<Rightarrow> py_error + series" where
  "frame_getitem data col =
     (case filter (\<lambda>c. fst c = col) (columns data) of
        [] \<Rightarrow> Inl (KeyError col)
      | [c] \<Rightarrow> Inr (snd c)
      | c # c' # cs \<Rightarrow> Inl (ValueError ''a DataFrame where a Series is needed''))"

text \<open>\<^verbatim>\<open>data[col] = codes\<close> for the integer codes of a label encoder.\<close>

definition frame_set_codes :: "dataframe \<Rightarrow> string \<Rightarrow> int list \<Rightarrow> py_error + dataframe" where
  "frame_set_codes data col codes =
     (if length codes \<noteq> n_rows data
      then Inl (ValueError ''Length of values does not match length of index'')
      else
        Inr (data\<lparr>columns :=
               AList.update col \<lparr>dtype = Int64, cells = map (\<lambda>i. Number (real_of_int i)) codes\<rparr>
                 (columns data)\<rparr>))"

text \<open>\<^verbatim>\<open>data.drop(columns=[col])\<close>.\<close>

definition frame_drop :: "dataframe \<Rightarrow> string \<Rightarrow> py_error + dataframe" where
  "frame_drop data col =
     (if col \<in> set (labels data)
      then Inr (data\<lparr>columns := filter (\<lambda>c. fst c \<noteq> col) (columns data)\<rparr>)
      else Inl (KeyError col))"

subsection \<open>The library calls\<close>

text \<open>
  What scikit-learn and pandas compute is a parameter of the model:
  \<^item> \<open>imputer_fit_transform strategy X\<close>: \<^verbatim>\<open>SimpleImputer(strategy).fit_transform(X)\<close>;
  \<^item> \<open>astype_str\<close>: \<^verbatim>\<open>series.astype(str)\<close>;
  \<^item> \<open>label_fit_transform\<close>: \<^verbatim>\<open>LabelEncoder().fit_transform\<close>, the codes and the fitted
    \<^verbatim>\<open>classes_\<close>;
  \<^item> \<open>scaler_statistics X\<close>: the per-feature statistics (mean, variance, scale) that
    \<^verbatim>\<open>StandardScaler.fit\<close> computes from \<open>X\<close>, or the exception of its input validation;
  \<^item> \<open>scaler_apply p X\<close>: the standardised values of \<open>X\<close> under the statistics \<open>p\<close>;
  \<^item> \<open>split X y test_size random_state\<close>: \<^verbatim>\<open>train_test_split\<close>;
  \<^item> the pickled or CSV file contents of the objects that the pipeline writes.
\<close>

record ('sc, 'b) sk_preprocessing =
  imputer_fit_transform :: "string \<Rightarrow> dataframe \<Rightarrow> py_error + ndarray"
  astype_str :: "series \<Rightarrow> series"
  label_fit_transform :: "series \<Rightarrow> py_error + int list \<times> string list"
  scaler_statistics :: "dataframe \<Rightarrow> py_error + 'sc"
  scaler_apply :: "'sc \<Rightarrow> dataframe \<Rightarrow> py_error + ndarray"
  split :: "dataframe \<Rightarrow> series \<Rightarrow> real \<Rightarrow> int
              \<Rightarrow> py_error + dataframe \<times> dataframe \<times> series \<times> series"
  pickle_scaler :: "'sc option \<Rightarrow> 'b"
  pickle_encoders :: "(string \<times> string list) list \<Rightarrow> 'b"
  frame_to_csv :: "dataframe \<Rightarrow> 'b"
  series_to_csv :: "series \<Rightarrow> 'b"

text \<open>
  The \<^verbatim>\<open>StandardScaler\<close> object holds the fitted statistics, or nothing before it is
  fitted. \<^verbatim>\<open>fit\<close> resets the object and then stores the statistics of its argument;
  \<^verbatim>\<open>fit_transform\<close> is \<^verbatim>\<open>fit\<close> followed by \<^verbatim>\<open>transform\<close>; \<^verbatim>\<open>transform\<close> reads the
  statistics and raises on an unfitted object. Each returns the outcome and the object.
\<close>

definition scaler_fit ::
  "('sc, 'b) sk_preprocessing \<Rightarrow> 'sc option \<Rightarrow> dataframe \<Rightarrow> (py_error + unit) \<times> 'sc option" where
  "scaler_fit lib sc X =
     (case scaler_statistics lib X of
        Inl e \<Rightarrow> (Inl e, None)
      | Inr p \<Rightarrow> (Inr (), Some p))"

definition scaler_transform ::
  "('sc, 'b) sk_preprocessing \<Rightarrow> 'sc option \<Rightarrow> dataframe \<Rightarrow> (py_error + ndarray) \<times> 'sc option" where
  "scaler_transform lib sc X =
     (case sc of
        None \<Rightarrow> (Inl NotFittedError, sc)
      | Some p \<Rightarrow> (scaler_apply lib p X, sc))"

definition scaler_fit_transform ::
  "('sc, 'b) sk_preprocessing \<Rightarrow> 'sc option \<Rightarrow> dataframe \<Rightarrow> (py_error + ndarray) \<times> 'sc option" where
  "scaler_fit_transform lib sc X =
     (case scaler_fit lib sc X of
        (Inl e, sc') \<Rightarrow> (Inl e, sc')
      | (Inr u, sc') \<Rightarrow> scaler_transform lib sc' X)"

subsection \<open>DataPreprocessing\<close>

text \<open>A fitted \<^verbatim>\<open>LabelEncoder\<close> is its \<^verbatim>\<open>classes_\<close>.\<close>

record 'sc preprocessor =
  processed_data_path :: string
  pp_artifacts_path :: string
  scaler :: "'sc option"
  label_encoders :: "(string \<times> string list) list"

definition new_preprocessor :: "string \<Rightarrow> string \<Rightarrow> 'sc preprocessor" where
  "new_preprocessor processed artifacts =
     \<lparr>processed_data_path = processed, pp_artifacts_path = artifacts, scaler = None,
      label_encoders = []\<rparr>"

text \<open>
  \<^verbatim>\<open>data[cols] = SimpleImputer(strategy=strategy).fit_transform(data[cols])\<close>, on the
  object at address \<open>data\<close>.
\<close>

definition assign_imputed ::
  "('sc, 'b) sk_preprocessing \<Rightarrow> string \<Rightarrow> frame_store \<Rightarrow> nat \<Rightarrow> string list
     \<Rightarrow> py_error + frame_store" where
  "assign_imputed lib strategy store data cols =
     (case frame_select (store ! data) cols of
        Inl e \<Rightarrow> Inl e
      | Inr selected \<Rightarrow>
          (case imputer_fit_transform lib strategy selected of
             Inl e \<Rightarrow> Inl e
           | Inr arr \<Rightarrow>
               (case frame_assign (store ! data) cols arr of
                  Inl e \<Rightarrow> Inl e
                | Inr d \<Rightarrow> Inr (store[data := d]))))"

text \<open>
  \<^verbatim>\<open>handle_missing_values\<close>. \<^verbatim>\<open>data.copy()\<close> and \<^verbatim>\<open>data.replace({None: np.nan})\<close> each
  return a new object; a missing cell is one value here, so \<^verbatim>\<open>replace\<close> keeps the
  contents.
\<close>

definition handle_missing_values ::
  "('sc, 'b) sk_preprocessing \<Rightarrow> frame_store \<Rightarrow> nat \<Rightarrow> string \<Rightarrow> string
     \<Rightarrow> (py_error + nat) \<times> frame_store" where
  "handle_missing_values lib store data numerical_strategy categorical_strategy =
     (let (data1, store1) = alloc store (store ! data);
          (data2, store2) = alloc store1 (store1 ! data1);
          numerical_cols = select_dtypes is_number (store2 ! data2) in
      case (if length numerical_cols > 0
            then assign_imputed lib numerical_strategy store2 data2 numerical_cols
            else Inr store2) of
        Inl e \<Rightarrow> (Inl e, store2)
      | Inr store3 \<Rightarrow>
          (let categorical_cols = select_dtypes (\<lambda>d. d = Object) (store3 ! data2) in
           case (if length categorical_cols > 0
                 then assign_imputed lib categorical_strategy store3 data2 categorical_cols
                 else Inr store3) of
             Inl e \<Rightarrow> (Inl e, store3)
           | Inr store4 \<Rightarrow> (Inr data2, store4)))"

text \<open>
  The loop of \<^verbatim>\<open>encode_categorical\<close>: for each listed column that the table has, fit a
  new encoder on the column as strings, assign the codes, and keep the encoder.
\<close>

fun encode_loop ::
  "('sc, 'b) sk_preprocessing \<Rightarrow> string list \<Rightarrow> nat \<Rightarrow> 'sc preprocessor \<Rightarrow> frame_store
     \<Rightarrow> py_error option \<times> 'sc preprocessor \<times> frame_store" where
  "encode_loop lib [] data self store = (None, self, store)"
| "encode_loop lib (col # cols) data self store =
     (if col \<in> set (labels (store ! data)) then
        (case frame_getitem (store ! data) col of
           Inl e \<Rightarrow> (Some e, self, store)
         | Inr s \<Rightarrow>
             (case label_fit_transform lib (astype_str lib s) of
                Inl e \<Rightarrow> (Some e, self, store)
              | Inr (codes, classes) \<Rightarrow>
                  (case frame_set_codes (store ! data) col codes of
                     Inl e \<Rightarrow> (Some e, self, store)
                   | Inr d \<Rightarrow>
                       encode_loop lib cols data
                         (self\<lparr>label_encoders := AList.update col classes (label_encoders self)\<rparr>)
                         (store[data := d]))))
      else encode_loop lib cols data self store)"

definition encode_categorical ::
  "('sc, 'b) sk_preprocessing \<Rightarrow> 'sc preprocessor \<Rightarrow> frame_store \<Rightarrow> nat \<Rightarrow> string list option
     \<Rightarrow> (py_error + nat) \<times> 'sc preprocessor \<times> frame_store" where
  "encode_categorical lib self store data cols =
     (let (data1, store1) = alloc store (store ! data);
          cols' = (case cols of
                     None \<Rightarrow> select_dtypes (\<lambda>d. d = Object) (store1 ! data1)
                   | Some cs \<Rightarrow> cs) in
      case encode_loop lib cols' data1 self store1 of
        (Some e, self', store') \<Rightarrow> (Inl e, self', store')
      | (None, self', store') \<Rightarrow> (Inr data1, self', store'))"

text \<open>\<^verbatim>\<open>scale_features\<close>: this method refits \<^verbatim>\<open>self.scaler\<close> on the table it is given.\<close>

definition scale_features ::
  "('sc, 'b) sk_preprocessing \<Rightarrow> 'sc preprocessor \<Rightarrow> frame_store \<Rightarrow> nat \<Rightarrow> string list option
     \<Rightarrow> (py_error + nat) \<times> 'sc preprocessor \<times> frame_store" where
  "scale_features lib self store data cols =
     (let (data1, store1) = alloc store (store ! data);
          cols' = (case cols of
                     None \<Rightarrow> select_dtypes is_number (store1 ! data1)
                   | Some cs \<Rightarrow> cs) in
      if length cols' > 0 then
        (case frame_select (store1 ! data1) cols' of
           Inl e \<Rightarrow> (Inl e, self, store1)
         | Inr selected \<Rightarrow>
             (let (out, sc) = scaler_fit_transform lib (scaler self) selected;
                  self' = self\<lparr>scaler := sc\<rparr> in
              case out of
                Inl e \<Rightarrow> (Inl e, self', store1)
              | Inr arr \<Rightarrow>
                  (case frame_assign (store1 ! data1) cols' arr of
                     Inl e \<Rightarrow> (Inl e, self', store1)
                   | Inr d \<Rightarrow> (Inr data1, self', store1[data1 := d]))))
      else (Inr data1, self, store1))"

text \<open>
  \<^verbatim>\<open>split_data\<close>: \<^verbatim>\<open>data.drop\<close> and \<^verbatim>\<open>train_test_split\<close> return new objects.
\<close>

definition split_data ::
  "('sc, 'b) sk_preprocessing \<Rightarrow> frame_store \<Rightarrow> nat \<Rightarrow> string \<Rightarrow> real \<Rightarrow> int
     \<Rightarrow> (py_error + nat \<times> nat \<times> series \<times> series) \<times> frame_store" where
  "split_data lib store data target_column test_size random_state =
     (case frame_drop (store ! data) target_column of
        Inl e \<Rightarrow> (Inl e, store)
      | Inr dropped \<Rightarrow>
          (let (X, store1) = alloc store dropped in
           case frame_getitem (store1 ! data) target_column of
             Inl e \<Rightarrow> (Inl e, store1)
           | Inr y \<Rightarrow>
               (case split lib (store1 ! X) y test_size random_state of
                  Inl e \<Rightarrow> (Inl e, store1)
                | Inr (train_part, test_part, y_train, y_test) \<Rightarrow>
                    (let (X_train, store2) = alloc store1 train_part;
                         (X_test, store3) = alloc store2 test_part
                     in (Inr (X_train, X_test, y_train, y_test), store3)))))"

text \<open>
  Step 3 of the pipeline: when the target column has dtype \<^verbatim>\<open>object\<close>, it is encoded
  in place and its encoder kept under the key \<^verbatim>\<open>target\<close>.
\<close>

definition encode_target ::
  "('sc, 'b) sk_preprocessing \<Rightarrow> 'sc preprocessor \<Rightarrow> frame_store \<Rightarrow> nat \<Rightarrow> string
     \<Rightarrow> py_error option \<times> 'sc preprocessor \<times> frame_store" where
  "encode_target lib self store data target_column =
     (case column_dtype (store ! data) target_column of
        Inl e \<Rightarrow> (Some e, self, store)
      | Inr d \<Rightarrow>
          if d = Object then
            (case frame_getitem (store ! data) target_column of
               Inl e \<Rightarrow> (Some e, self, store)
             | Inr s \<Rightarrow>
                 (case label_fit_transform lib s of
                    Inl e \<Rightarrow> (Some e, self, store)
                  | Inr (codes, classes) \<Rightarrow>
                      (case frame_set_codes (store ! data) target_column codes of
                         Inl e \<Rightarrow> (Some e, self, store)
                       | Inr d' \<Rightarrow>
                           (None,
                            self\<lparr>label_encoders :=
                                   AList.update ''target'' classes (label_encoders self)\<rparr>,
                            store[data := d']))))
          else (None, self, store))"

text \<open>Steps 1 to 4 of \<^verbatim>\<open>preprocess_pipeline\<close>, up to the four partitions.\<close>

definition prepare_partitions ::
  "('sc, 'b) sk_preprocessing \<Rightarrow> 'sc preprocessor \<Rightarrow> frame_store \<Rightarrow> nat \<Rightarrow> string \<Rightarrow> real
     \<Rightarrow> (py_error + nat \<times> nat \<times> series \<times> series) \<times> 'sc preprocessor \<times> frame_store" where
  "prepare_partitions lib self store data target_column test_size =
     (case handle_missing_values lib store data ''mean'' ''most_frequent'' of
        (Inl e, store1) \<Rightarrow> (Inl e, self, store1)
      | (Inr data1, store1) \<Rightarrow>
          (let categorical_cols =
                 remove1 target_column (select_dtypes (\<lambda>d. d = Object) (store1 ! data1)) in
           case encode_categorical lib self store1 data1 (Some categorical_cols) of
             (Inl e, self2, store2) \<Rightarrow> (Inl e, self2, store2)
           | (Inr data2, self2, store2) \<Rightarrow>
               (case encode_target lib self2 store2 data2 target_column of
                  (Some e, self3, store3) \<Rightarrow> (Inl e, self3, store3)
                | (None, self3, store3) \<Rightarrow>
                    (case split_data lib store3 data2 target_column test_size 42 of
                       (Inl e, store4) \<Rightarrow> (Inl e, self3, store4)
                     | (Inr parts, store4) \<Rightarrow> (Inr parts, self3, store4)))))"

text \<open>
  Step 5: \<^verbatim>\<open>X_train[feature_cols] = self.scaler.fit_transform(X_train[feature_cols])\<close>,
  then \<^verbatim>\<open>X_test[feature_cols] = self.scaler.transform(X_test[feature_cols])\<close>.
\<close>

definition scale_partitions ::
  "('sc, 'b) sk_preprocessing \<Rightarrow> 'sc preprocessor \<Rightarrow> frame_store \<Rightarrow> nat \<Rightarrow> nat
     \<Rightarrow> py_error option \<times> 'sc preprocessor \<times> frame_store" where
  "scale_partitions lib self store X_train X_test =
     (let feature_cols = labels (store ! X_train) in
      case frame_select (store ! X_train) feature_cols of
        Inl e \<Rightarrow> (Some e, self, store)
      | Inr train_features \<Rightarrow>
          (let (out, sc1) = scaler_fit_transform lib (scaler self) train_features;
               self1 = self\<lparr>scaler := sc1\<rparr> in
           case out of
             Inl e \<Rightarrow> (Some e, self1, store)
           | Inr arr \<Rightarrow>
               (case frame_assign (store ! X_train) feature_cols arr of
                  Inl e \<Rightarrow> (Some e, self1, store)
                | Inr d \<Rightarrow>
                    (let store1 = store[X_train := d] in
                     case frame_select (store1 ! X_test) feature_cols of
                       Inl e \<Rightarrow> (Some e, self1, store1)
                     | Inr test_features \<Rightarrow>
                         (let (out2, sc2) = scaler_transform lib (scaler self1) test_features;
                              self2 = self1\<lparr>scaler := sc2\<rparr> in
                          case out2 of
                            Inl e \<Rightarrow> (Some e, self2, store1)
                          | Inr arr2 \<Rightarrow>
                              (case frame_assign (store1 ! X_test) feature_cols arr2 of
                                 Inl e \<Rightarrow> (Some e, self2, store1)
                               | Inr d2 \<Rightarrow> (None, self2, store1[X_test := d2])))))))"

text \<open>
  Steps 6 and 7 write six files one after the other; a write that fails ends the
  sequence with the earlier files in place.
\<close>

fun write_files :: "'b filesystem \<Rightarrow> (string \<times> 'b) list \<Rightarrow> py_error option \<times> 'b filesystem" where
  "write_files fs [] = (None, fs)"
| "write_files fs ((path, content) # rest) =
     (if writable fs path then write_files (fs\<lparr>files := (files fs)(path \<mapsto> content)\<rparr>) rest
      else (Some (OSError path), fs))"

definition preprocess_pipeline ::
  "('sc, 'b) sk_preprocessing \<Rightarrow> 'sc preprocessor \<Rightarrow> frame_store \<Rightarrow> 'b filesystem \<Rightarrow> nat
     \<Rightarrow> string \<Rightarrow> real
     \<Rightarrow> (py_error + nat \<times> nat \<times> series \<times> series) \<times> 'sc preprocessor \<times> frame_store
         \<times> 'b filesystem" where
  "preprocess_pipeline lib self store fs data target_column test_size =
     (case prepare_partitions lib self store data target_column test_size of
        (Inl e, self1, store1) \<Rightarrow> (Inl e, self1, store1, fs)
      | (Inr (X_train, X_test, y_train, y_test), self1, store1) \<Rightarrow>
          (case scale_partitions lib self1 store1 X_train X_test of
             (Some e, self2, store2) \<Rightarrow> (Inl e, self2, store2, fs)
           | (None, self2, store2) \<Rightarrow>
               (case write_files fs
                       [(path_join (pp_artifacts_path self2) ''scaler.pkl'',
                           pickle_scaler lib (scaler self2)),
                        (path_join (pp_artifacts_path self2) ''label_encoders.pkl'',
                           pickle_encoders lib (label_encoders self2)),
                        (path_join (processed_data_path self2) ''X_train.csv'',
                           frame_to_csv lib (store2 ! X_train)),
                        (path_join (processed_data_path self2) ''X_test.csv'',
                           frame_to_csv lib (store2 ! X_test)),
                        (path_join (processed_data_path self2) ''y_train.csv'',
                           series_to_csv lib y_train),
                        (path_join (processed_data_path self2) ''y_test.csv'',
                           series_to_csv lib y_test)] of
                  (Some e, fs') \<Rightarrow> (Inl e, self2, store2, fs')
                | (None, fs') \<Rightarrow>
                    (Inr (X_train, X_test, y_train, y_test), self2, store2, fs'))))"

subsection \<open>A stand-in for the transformers, for concrete runs\<close>

text \<open>
  The imputer fills a missing cell with \<open>0\<close> or \<open>x\<close>, the encoder codes every string as
  \<open>0\<close>, the scaler's statistics are the labels and the number of rows it was fitted on,
  it refuses a table without rows and it scales by subtracting that number of rows, and
  the split puts the last row into the test partition. File contents are short strings.
\<close>

definition take_rows :: "nat \<Rightarrow> dataframe \<Rightarrow> dataframe" where
  "take_rows k X =
     \<lparr>n_rows = min k (n_rows X),
      columns = map (\<lambda>c. (fst c, (snd c)\<lparr>cells := take k (cells (snd c))\<rparr>)) (columns X)\<rparr>"

definition drop_rows :: "nat \<Rightarrow> dataframe \<Rightarrow> dataframe" where
  "drop_rows k X =
     \<lparr>n_rows = n_rows X - k,
      columns = map (\<lambda>c. (fst c, (snd c)\<lparr>cells := drop k (cells (snd c))\<rparr>)) (columns X)\<rparr>"

definition stub_preprocessing :: "(string list \<times> nat, string) sk_preprocessing" where
  "stub_preprocessing =
     \<lparr>imputer_fit_transform =
        (\<lambda>strategy X.
           Inr \<lparr>arr_dtype = (if strategy = ''mean'' then Float64 else Object),
                arr_columns =
                  map (\<lambda>c. map (\<lambda>x. if x = Missing
                                     then (if strategy = ''mean'' then Number 0 else Text ''x'')
                                     else x) (cells (snd c))) (columns X)\<rparr>),
      astype_str = (\<lambda>s. s),
      label_fit_transform = (\<lambda>s. Inr (map (\<lambda>c. 0) (cells s), [''x''])),
      scaler_statistics =
        (\<lambda>X. if n_rows X = 0 then Inl (ValueError ''0 samples'') else Inr (labels X, n_rows X)),
      scaler_apply =
        (\<lambda>p X.
           Inr \<lparr>arr_dtype = Float64,
                arr_columns =
                  map (\<lambda>c. map (\<lambda>x. case x of Number v \<Rightarrow> Number (v - real (snd p)) | _ \<Rightarrow> x)
                               (cells (snd c))) (columns X)\<rparr>),
      split =
        (\<lambda>X y test_size random_state.
           Inr (take_rows (n_rows X - 1) X, drop_rows (n_rows X - 1) X,
                y\<lparr>cells := take (n_rows X - 1) (cells y)\<rparr>,
                y\<lparr>cells := drop (n_rows X - 1) (cells y)\<rparr>)),
      pickle_scaler = (\<lambda>sc. ''scaler''),
      pickle_encoders = (\<lambda>e. ''encoders''),
      frame_to_csv = (\<lambda>d. ''frame''),
      series_to_csv = (\<lambda>s. ''series'')\<rparr>"

definition labelled_frame :: dataframe where
  "labelled_frame =
     \<lparr>n_rows = 3,
      columns = [(''height'', \<lparr>dtype = Float64, cells = [Number 1, Missing, Number 3]\<rparr>),
                 (''kind'', \<lparr>dtype = Object, cells = [Text ''a'', Text ''b'', Missing]\<rparr>),
                 (''target'', \<lparr>dtype = Int64, cells = [Number 1, Number 2, Number 1]\<rparr>)]\<rparr>"

definition writable_disk :: "string filesystem" where
  "writable_disk = \<lparr>files = Map.empty, writable = (\<lambda>path. True)\<rparr>"


section \<open>Properties of data validation\<close>

lemma validate_columns_fst:
  "fst (validate_columns self data cols) = (filter (\<lambda>col. col \<notin> set (labels data)) cols = [])"
  by (simp add: validate_columns_def Let_def)

lemma validate_missing_values_fst:
  "fst (validate_missing_values self data th) =
     (filter (\<lambda>c. np_gt (snd c) th)
        (map (\<lambda>c. (fst c, np_true_divide (isnull_sum (snd c)) (n_rows data))) (columns data)) = [])"
  by (simp add: validate_missing_values_def Let_def)

lemma validate_data_types_fst:
  "fst (validate_data_types self data ts) =
     (case type_mismatch_loop data ts [] of Inl e \<Rightarrow> Inl e | Inr ms \<Rightarrow> Inr (ms = []))"
  by (simp add: validate_data_types_def split: sum.splits)

lemma filter_label_distinct:
  "distinct (map fst xs) \<Longrightarrow> col \<in> set (map fst xs) \<Longrightarrow> \<exists>c. filter (\<lambda>c. fst c = col) xs = [c]"
proof (induction xs)
  case Nil
  then show ?case by simp
next
  case (Cons x xs)
  show ?case
  proof (cases "fst x = col")
    case True
    with Cons.prems have "filter (\<lambda>c. fst c = col) xs = []"
      by (auto simp: filter_empty_conv image_iff)
    with True show ?thesis by simp
  next
    case False
    with Cons show ?thesis by auto
  qed
qed

lemma column_dtype_distinct:
  "distinct (labels data) \<Longrightarrow> col \<in> set (labels data) \<Longrightarrow> \<exists>d. column_dtype data col = Inr d"
  using filter_label_distinct[of "columns data" col]
  by (auto simp: labels_def column_dtype_def)

lemma type_mismatch_loop_distinct:
  "distinct (labels data) \<Longrightarrow> \<exists>ms. type_mismatch_loop data ts acc = Inr ms"
proof (induction data ts acc rule: type_mismatch_loop.induct)
  case (1 data mismatches)
  then show ?case by simp
next
  case (2 data col expected rest mismatches)
  show ?case
  proof (cases "col \<in> set (labels data)")
    case True
    with 2(4) obtain d where d: "column_dtype data col = Inr d"
      using column_dtype_distinct by blast
    with True 2 show ?thesis by (simp add: Let_def)
  next
    case False
    with 2 show ?thesis by simp
  qed
qed

lemma validate_data_types_distinct:
  "distinct (labels data) \<Longrightarrow> \<exists>b. fst (validate_data_types self data ts) = Inr b"
  using type_mismatch_loop_distinct[of data ts "[]"]
  by (auto simp: validate_data_types_fst)

lemma validate_data_types_fst_indep:
  "fst (validate_data_types a data ts) = fst (validate_data_types b data ts)"
  by (simp add: validate_data_types_fst)



lemma validate_all_flags:
  "map_sum id (\<lambda>r. (columns_valid r, missing_valid r, types_valid r, overall_valid r))
       (fst (validate_all self data rc et th)) =
     (case (if truthy et then fst (validate_data_types vc data (given et)) else Inr True) of
        Inl e \<Rightarrow> Inl e
      | Inr b \<Rightarrow>
          Inr ((if truthy rc then fst (validate_columns va data (given rc)) else True),
               fst (validate_missing_values vb data th), b,
               (if truthy rc then fst (validate_columns va data (given rc)) else True) \<and>
               fst (validate_missing_values vb data th) \<and> b))"
  by (simp add: validate_all_def Let_def case_prod_beta validate_missing_values_fst
      validate_columns_fst validate_data_types_fst split: sum.splits)

lemma truthy_given_columns:
  "(if truthy rc then fst (validate_columns va data (given rc)) else True) =
     (case rc of None \<Rightarrow> True | Some cols \<Rightarrow> fst (validate_columns va data cols))"
  by (cases rc rule: truthy.cases) (simp_all add: validate_columns_fst)

lemma truthy_given_types:
  "((if truthy et then fst (validate_data_types vc data (given et)) else Inr True) = Inr b) \<Longrightarrow>
     b = (case et of None \<Rightarrow> True | Some ts \<Rightarrow> fst (validate_data_types vc data ts) = Inr True)"
  by (cases et rule: truthy.cases) (auto simp add: validate_data_types_fst)

text \<open>
  Claim C3. For every dataset and every combination of the optional arguments, the
  \<open>overall_valid\<close> field of the report of \<^verbatim>\<open>validate_all\<close> is the conjunction of the
  results of the requested checks: \<open>columns_valid\<close> is the result of the column check when
  \<^verbatim>\<open>required_columns\<close> is supplied and true otherwise, \<open>missing_valid\<close> is the result of
  the missing-value check, \<open>types_valid\<close> is the result of the type check when
  \<^verbatim>\<open>expected_types\<close> is supplied and true otherwise. A check that is not supplied is not
  run: it leaves its entry of the validator's report as it was. On a table whose column
  labels are distinct the call returns a report; it cannot return one only when the type
  check itself raises, on a label that several columns carry.
\<close>

theorem validate_all_overall_valid:
  "(distinct (labels data) \<longrightarrow> (\<exists>r. fst (validate_all self data rc et th) = Inr r)) \<and>
   (\<forall>r. fst (validate_all self data rc et th) = Inr r \<longrightarrow>
      columns_valid r = (case rc of None \<Rightarrow> True | Some cols \<Rightarrow> fst (validate_columns va data cols)) \<and>
      missing_valid r = fst (validate_missing_values vb data th) \<and>
      types_valid r =
        (case et of None \<Rightarrow> True | Some ts \<Rightarrow> fst (validate_data_types vc data ts) = Inr True) \<and>
      overall_valid r = (columns_valid r \<and> missing_valid r \<and> types_valid r)) \<and>
   (rc = None \<longrightarrow>
      missing_columns (validation_report (snd (validate_all self data rc et th))) =
      missing_columns (validation_report self)) \<and>
   (et = None \<longrightarrow>
      type_mismatches (validation_report (snd (validate_all self data rc et th))) =
      type_mismatches (validation_report self))"
proof (intro conjI impI allI)
  assume d: "distinct (labels data)"
  obtain b where "(if truthy et then fst (validate_data_types vc data (given et)) else Inr True) = Inr b"
    using validate_data_types_distinct[OF d, of vc "given et"] by (cases "truthy et") auto
  with validate_all_flags[where self=self and data=data and rc=rc and et=et and th=th and vc=vc and va=va and vb=vb]
  show "\<exists>r. fst (validate_all self data rc et th) = Inr r"
    by (cases "fst (validate_all self data rc et th)") simp_all
next
  fix r assume r: "fst (validate_all self data rc et th) = Inr r"
  from validate_all_flags[where self=self and data=data and rc=rc and et=et and th=th and vc=vc and va=va and vb=vb] r
  obtain b where b: "(if truthy et then fst (validate_data_types vc data (given et)) else Inr True) = Inr b"
    and flags: "columns_valid r = (if truthy rc then fst (validate_columns va data (given rc)) else True)"
      "missing_valid r = fst (validate_missing_values vb data th)"
      "types_valid r = b"
      "overall_valid r = ((if truthy rc then fst (validate_columns va data (given rc)) else True) \<and>
               fst (validate_missing_values vb data th) \<and> b)"
    by (auto split: sum.splits)
  show "columns_valid r = (case rc of None \<Rightarrow> True | Some cols \<Rightarrow> fst (validate_columns va data cols))"
    using flags(1) by (simp only: truthy_given_columns)
  show "missing_valid r = fst (validate_missing_values vb data th)"
    by (rule flags(2))
  show "types_valid r = (case et of None \<Rightarrow> True | Some ts \<Rightarrow> fst (validate_data_types vc data ts) = Inr True)"
    using truthy_given_types[OF b] flags(3) by simp
  show "overall_valid r = (columns_valid r \<and> missing_valid r \<and> types_valid r)"
    using flags by simp
next
  assume "rc = None"
  then show "missing_columns (validation_report (snd (validate_all self data rc et th))) =
      missing_columns (validation_report self)"
    by (simp add: validate_all_def Let_def case_prod_beta validate_missing_values_def validate_data_types_def
        split: sum.splits)
next
  assume "et = None"
  then show "type_mismatches (validation_report (snd (validate_all self data rc et th))) =
      type_mismatches (validation_report self)"
    by (simp add: validate_all_def Let_def case_prod_beta validate_missing_values_def validate_columns_def
        split: sum.splits)
qed


text \<open>
  The table of two rows with an integer column \<open>a\<close> and a half-empty float column \<open>b\<close>:
  column \<open>c\<close> is required and absent, \<open>b\<close> exceeds the threshold, the type of \<open>a\<close> matches.
\<close>

theorem validate_all_overall_valid_witness:
  "distinct (labels example_frame) \<and>
   (\<exists>r. fst (validate_all (new_validator None) example_frame (Some [''a'', ''c''])
              (Some [(''a'', ''int'')]) (Fin (3 / 10))) = Inr r \<and>
        \<not> columns_valid r \<and> \<not> missing_valid r \<and> types_valid r \<and> \<not> overall_valid r)"
proof -
  have d: "distinct (labels example_frame)"
    by (simp add: labels_def example_frame_def)
  note t = validate_all_overall_valid[where data = example_frame and self = "new_validator None"
      and rc = "Some [''a'', ''c'']" and et = "Some [(''a'', ''int'')]" and th = "Fin (3 / 10)"
      and va = "new_validator None" and vb = "new_validator None" and vc = "new_validator None"]
  from t d obtain r where r: "fst (validate_all (new_validator None) example_frame (Some [''a'', ''c''])
              (Some [(''a'', ''int'')]) (Fin (3 / 10))) = Inr r"
    by blast
  have c: "\<not> fst (validate_columns (new_validator None) example_frame [''a'', ''c''])"
    by (simp add: validate_columns_def labels_def example_frame_def)
  have m: "\<not> fst (validate_missing_values (new_validator None) example_frame (Fin (3 / 10)))"
    by (simp add: validate_missing_values_def example_frame_def isnull_sum_def np_true_divide_def)
  have ty: "fst (validate_data_types (new_validator None) example_frame [(''a'', ''int'')]) = Inr True"
    by (simp add: validate_data_types_def labels_def example_frame_def column_dtype_def
        sublist_Cons_right)
  from t r c m ty have "\<not> columns_valid r \<and> \<not> missing_valid r \<and> types_valid r \<and> \<not> overall_valid r"
    by simp
  with d r show ?thesis by blast
qed

text \<open>
  Claim C10. On a dataset with zero rows, where every column is empty, the ratio of every
  column is \<open>0 / 0\<close>, which is \<open>nan\<close> and not an exception; no comparison with \<open>nan\<close>
  holds, so for every threshold \<^verbatim>\<open>validate_missing_values\<close> returns \<open>True\<close> and
  records the empty dict of offending columns.
\<close>

theorem validate_missing_values_zero_rows:
  assumes "n_rows data = 0" and "\<forall>c\<in>set (columns data). cells (snd c) = []"
  shows "validate_missing_values self data threshold =
           (True, self\<lparr>validation_report :=
                     (validation_report self)\<lparr>high_missing_columns := Some []\<rparr>\<rparr>)"
proof -
  have "map (\<lambda>c. (fst c, np_true_divide (isnull_sum (snd c)) (n_rows data))) (columns data)
      = map (\<lambda>c. (fst c, NaN)) (columns data)"
    using assms by (simp add: isnull_sum_def np_true_divide_def)
  moreover have "filter (\<lambda>c. np_gt (snd c) threshold) (map (\<lambda>c. (fst c, NaN)) (columns data)) = []"
    by (simp add: filter_empty_conv)
  ultimately show ?thesis
    by (simp add: validate_missing_values_def)
qed

text \<open>A table of two empty columns, at the default threshold.\<close>

theorem validate_missing_values_zero_rows_witness:
  "n_rows empty_frame = 0 \<and> list_all (\<lambda>c. cells (snd c) = []) (columns empty_frame) \<and>
   fst (validate_missing_values (new_validator None) empty_frame (Fin (3 / 10))) = True \<and>
   high_missing_columns (validation_report
     (snd (validate_missing_values (new_validator None) empty_frame (Fin (3 / 10))))) = Some []"
proof -
  have a: "n_rows empty_frame = 0" by (simp add: empty_frame_def)
  have b: "\<forall>c\<in>set (columns empty_frame). cells (snd c) = []" by (simp add: empty_frame_def)
  have c: "list_all (\<lambda>c. cells (snd c) = []) (columns empty_frame)"
    using b by (simp only: list_all_iff)
  show ?thesis
    using a c validate_missing_values_zero_rows[OF a b, of "new_validator None" "Fin (3 / 10)"]
    by simp
qed

text \<open>
  Claim C4, as stated, fails: the report returned by \<^verbatim>\<open>validate_all\<close> carries
  \<^verbatim>\<open>self.validation_report\<close> as its \<open>details\<close>, and that dict keeps the entries that
  earlier calls wrote. The same call on a new validator and on a validator that has
  checked the required column \<open>c\<close> before returns two different reports.
\<close>

theorem validate_all_same_arguments_counterexample:
  "fst (validate_all (new_validator None) example_frame None None (Fin (3 / 10))) \<noteq>
   fst (validate_all
          (snd (validate_all (new_validator None) example_frame (Some [''c'']) None (Fin (3 / 10))))
          example_frame None None (Fin (3 / 10)))"
  by (simp add: validate_all_def validate_columns_def validate_missing_values_def new_validator_def
      labels_def example_frame_def isnull_sum_def np_true_divide_def)

lemma validate_all_high_missing:
  "high_missing_columns (validation_report (snd (validate_all self data rc et th))) =
     high_missing_columns (validation_report (snd (validate_missing_values vb data th)))"
  by (simp add: validate_all_def Let_def case_prod_beta validate_missing_values_def
      validate_data_types_def split: sum.splits)

lemma validate_all_missing_columns:
  "truthy rc \<Longrightarrow>
   missing_columns (validation_report (snd (validate_all self data rc et th))) =
     missing_columns (validation_report (snd (validate_columns va data (given rc))))"
  by (simp add: validate_all_def Let_def case_prod_beta validate_missing_values_def
      validate_data_types_def validate_columns_def split: sum.splits)

lemma validate_all_type_mismatches:
  "truthy et \<Longrightarrow> fst (validate_all self data rc et th) = Inr r \<Longrightarrow>
   type_mismatches (validation_report (snd (validate_all self data rc et th))) =
     type_mismatches (validation_report (snd (validate_data_types vc data (given et))))"
  by (auto simp add: validate_all_def Let_def case_prod_beta validate_data_types_def
      split: sum.splits if_splits)

lemma validate_all_details:
  "fst (validate_all self data rc et th) = Inr r \<Longrightarrow>
   details r = validation_report (snd (validate_all self data rc et th))"
  by (auto simp add: validate_all_def Let_def case_prod_beta split: sum.splits)

lemma validate_all_same_report:
  "validation_report a = validation_report b \<Longrightarrow>
   fst (validate_all a data rc et th) = fst (validate_all b data rc et th)"
  by (simp add: validate_all_def Let_def case_prod_beta validate_missing_values_def
      validate_data_types_def validate_columns_def split: sum.splits)

text \<open>
  Claim C4, amended. \<^verbatim>\<open>validate_all\<close> and each of the three checks leave the store of
  tables as it was. Whether \<^verbatim>\<open>validate_all\<close> raises, and the four flags of its report,
  depend only on the arguments of the call, not on the validator. In the \<open>details\<close>, the
  entry of each check that ran in this call (\<open>high_missing_columns\<close> always,
  \<open>missing_columns\<close> when \<^verbatim>\<open>required_columns\<close> is non-empty, \<open>type_mismatches\<close> when
  \<^verbatim>\<open>expected_types\<close> is non-empty) depends only on the arguments; and two validators
  with the same \<^verbatim>\<open>validation_report\<close> return the same report for the same arguments.
\<close>

theorem validate_all_frame_and_dependence:
  "snd (validate_all_at self store ref rc et th) = store \<and>
   snd (validate_columns_at self store ref cols) = store \<and>
   snd (validate_missing_values_at self store ref th) = store \<and>
   snd (validate_data_types_at self store ref ts) = store \<and>
   map_sum id (\<lambda>r. (columns_valid r, missing_valid r, types_valid r, overall_valid r))
       (fst (validate_all a data rc et th)) =
   map_sum id (\<lambda>r. (columns_valid r, missing_valid r, types_valid r, overall_valid r))
       (fst (validate_all b data rc et th)) \<and>
   (\<forall>ra rb. fst (validate_all a data rc et th) = Inr ra \<longrightarrow>
            fst (validate_all b data rc et th) = Inr rb \<longrightarrow>
      high_missing_columns (details ra) = high_missing_columns (details rb) \<and>
      (truthy rc \<longrightarrow> missing_columns (details ra) = missing_columns (details rb)) \<and>
      (truthy et \<longrightarrow> type_mismatches (details ra) = type_mismatches (details rb))) \<and>
   (validation_report a = validation_report b \<longrightarrow>
      fst (validate_all a data rc et th) = fst (validate_all b data rc et th))"
proof (intro conjI allI impI)
  show "snd (validate_all_at self store ref rc et th) = store"
    by (simp add: validate_all_at_def)
  show "snd (validate_columns_at self store ref cols) = store"
    by (simp add: validate_columns_at_def)
  show "snd (validate_missing_values_at self store ref th) = store"
    by (simp add: validate_missing_values_at_def)
  show "snd (validate_data_types_at self store ref ts) = store"
    by (simp add: validate_data_types_at_def)
  show "map_sum id (\<lambda>r. (columns_valid r, missing_valid r, types_valid r, overall_valid r))
       (fst (validate_all a data rc et th)) =
   map_sum id (\<lambda>r. (columns_valid r, missing_valid r, types_valid r, overall_valid r))
       (fst (validate_all b data rc et th))"
    by (simp only: validate_all_flags[where va = a and vb = a and vc = a])
next
  fix ra rb
  assume ra: "fst (validate_all a data rc et th) = Inr ra"
    and rb: "fst (validate_all b data rc et th) = Inr rb"
  show "high_missing_columns (details ra) = high_missing_columns (details rb)"
    by (simp only: validate_all_details[OF ra] validate_all_details[OF rb]
        validate_all_high_missing[where vb = a])
  show "missing_columns (details ra) = missing_columns (details rb)" if "truthy rc"
    by (simp only: validate_all_details[OF ra] validate_all_details[OF rb]
        validate_all_missing_columns[OF that, where va = a])
  show "type_mismatches (details ra) = type_mismatches (details rb)" if "truthy et"
    by (simp only: validate_all_details[OF ra] validate_all_details[OF rb]
        validate_all_type_mismatches[OF that ra, where vc = a]
        validate_all_type_mismatches[OF that rb, where vc = a])
next
  assume "validation_report a = validation_report b"
  then show "fst (validate_all a data rc et th) = fst (validate_all b data rc et th)"
    by (rule validate_all_same_report)
qed

text \<open>
  The same call on a new validator and on one that has run all three checks before: the
  entries of the checks that ran agree, the entry of the type check, which did not run,
  does not.
\<close>

theorem validate_all_frame_and_dependence_witness:
  "truthy (Some [''a'', ''c'']) \<and>
   (\<exists>ra rb.
      fst (validate_all (new_validator None) example_frame (Some [''a'', ''c'']) None (Fin (3 / 10)))
        = Inr ra \<and>
      fst (validate_all
             (snd (validate_all (new_validator None) example_frame (Some [''z''])
                     (Some [(''a'', ''float'')]) (Fin (3 / 10))))
             example_frame (Some [''a'', ''c'']) None (Fin (3 / 10))) = Inr rb \<and>
      missing_columns (details ra) = missing_columns (details rb) \<and>
      high_missing_columns (details ra) = high_missing_columns (details rb) \<and>
      type_mismatches (details ra) \<noteq> type_mismatches (details rb))"
proof -
  let ?a = "new_validator None"
  let ?b = "snd (validate_all (new_validator None) example_frame (Some [''z''])
                     (Some [(''a'', ''float'')]) (Fin (3 / 10)))"
  let ?ra = "\<lparr>columns_valid = False, missing_valid = False, types_valid = True,
              overall_valid = False,
              details = \<lparr>missing_columns = Some [''c''],
                         high_missing_columns = Some [(''b'', Fin (1 / 2))],
                         type_mismatches = None\<rparr>\<rparr>"
  let ?rb = "\<lparr>columns_valid = False, missing_valid = False, types_valid = True,
              overall_valid = False,
              details = \<lparr>missing_columns = Some [''c''],
                         high_missing_columns = Some [(''b'', Fin (1 / 2))],
                         type_mismatches = Some [(''a'', ''float'', ''int64'')]\<rparr>\<rparr>"
  have ra: "fst (validate_all ?a example_frame (Some [''a'', ''c'']) None (Fin (3 / 10))) = Inr ?ra"
    by (simp add: validate_all_def validate_columns_def validate_missing_values_def
        new_validator_def labels_def example_frame_def isnull_sum_def np_true_divide_def)
  have rb: "fst (validate_all ?b example_frame (Some [''a'', ''c'']) None (Fin (3 / 10))) = Inr ?rb"
    by (simp add: validate_all_def validate_columns_def validate_missing_values_def
        validate_data_types_def column_dtype_def sublist_Cons_right
        new_validator_def labels_def example_frame_def isnull_sum_def np_true_divide_def)
  have t: "truthy (Some [''a'', ''c''])" by simp
  from validate_all_frame_and_dependence[where a = ?a and b = ?b and data = example_frame
      and rc = "Some [''a'', ''c'']" and et = None and th = "Fin (3 / 10)"] ra rb t
  have "missing_columns (details ?ra) = missing_columns (details ?rb) \<and>
        high_missing_columns (details ?ra) = high_missing_columns (details ?rb)"
    by blast
  moreover have "type_mismatches (details ?ra) \<noteq> type_mismatches (details ?rb)" by simp
  ultimately show ?thesis using ra rb t by blast
qed


section \<open>Properties of model training\<close>

lemma map_of_MODELS:
  "map_of MODELS name =
     (if name = ''random_forest'' then Some RandomForestClassifier
      else if name = ''logistic_regression'' then Some LogisticRegression
      else if name = ''decision_tree'' then Some DecisionTreeClassifier
      else if name = ''gradient_boosting'' then Some GradientBoostingClassifier
      else None)"
  by (simp add: MODELS_def)

lemma sublist_in_tail: "sublist k ys \<Longrightarrow> sublist k (xs @ ys)"
  by (auto simp: sublist_def) (metis append.assoc)

lemma available_names:
  "sublist ''random_forest'' (py_repr_list (map fst MODELS))"
  "sublist ''logistic_regression'' (py_repr_list (map fst MODELS))"
  "sublist ''decision_tree'' (py_repr_list (map fst MODELS))"
  "sublist ''gradient_boosting'' (py_repr_list (map fst MODELS))"
  by (simp_all add: MODELS_def py_repr_list_def py_repr_str_def sublist_Cons_right)

lemma get_model_unknown:
  "map_of MODELS name = None \<Longrightarrow>
   get_model sk name params =
     Inl (ValueError (''Unknown model: '' @ name @ ''. Available: ''
            @ py_repr_list (map fst MODELS)))"
  by (simp add: get_model_def)

lemma get_model_known:
  "map_of MODELS name = Some cls \<Longrightarrow>
   get_model sk name params =
     sk_construct sk cls
       ((case map_of default_params name of None \<Rightarrow> Map.empty | Some d \<Rightarrow> d) ++ params)"
  by (simp add: get_model_def)

text \<open>
  Claim C5, as stated, fails for a name inside the set: \<^verbatim>\<open>get_model\<close> passes the
  caller's hyperparameters on to the constructor, and a keyword that the class does
  not have, as in \<^verbatim>\<open>get_model("random_forest", bogus=1)\<close>, makes the constructor raise
  \<^verbatim>\<open>TypeError\<close>: no classifier is constructed.
\<close>

theorem get_model_known_name_unexpected_keyword_counterexample:
  "get_model stub_sklearn ''random_forest'' [''bogus'' \<mapsto> PInt 1] =
     Inl (TypeError ''__init__() got an unexpected keyword argument'')"
  by (simp add: get_model_def MODELS_def default_params_def sk_construct_def stub_sklearn_def)

text \<open>
  Claim C5, amended. For a model-type name outside \<open>random_forest\<close>,
  \<open>logistic_regression\<close>, \<open>decision_tree\<close>, \<open>gradient_boosting\<close>, \<^verbatim>\<open>get_model\<close> raises a
  \<^verbatim>\<open>ValueError\<close> whose message contains all four valid names, and \<^verbatim>\<open>train\<close> raises
  the same error having only recorded the name: \<^verbatim>\<open>self.model\<close> is untouched and the
  result does not depend on \<^verbatim>\<open>fit\<close>, which is never reached. For a name inside the set,
  \<^verbatim>\<open>get_model\<close> itself raises nothing: its result is that of the constructor of the
  corresponding class on the type's defaults overridden by the caller's values. That is
  the class's unfitted estimator exactly when the constructor accepts every one of these
  keyword names, and a \<^verbatim>\<open>TypeError\<close> otherwise.
\<close>

theorem get_model_unknown_fails_known_reaches_constructor:
  "(name \<notin> {''random_forest'', ''logistic_regression'', ''decision_tree'', ''gradient_boosting''}
      \<longrightarrow>
      (\<exists>msg. get_model sk name params = Inl (ValueError msg) \<and>
         sublist ''random_forest'' msg \<and> sublist ''logistic_regression'' msg \<and>
         sublist ''decision_tree'' msg \<and> sublist ''gradient_boosting'' msg \<and>
         train sk clock self X_train y_train name params =
           (Inl (ValueError msg), self\<lparr>model_name := Some name\<rparr>))) \<and>
   (\<forall>cls. (name, cls) \<in> {(''random_forest'', RandomForestClassifier),
                         (''logistic_regression'', LogisticRegression),
                         (''decision_tree'', DecisionTreeClassifier),
                         (''gradient_boosting'', GradientBoostingClassifier)} \<longrightarrow>
      get_model sk name params =
        sk_construct sk cls
          ((case map_of default_params name of None \<Rightarrow> Map.empty | Some d \<Rightarrow> d) ++ params) \<and>
      (dom ((case map_of default_params name of None \<Rightarrow> Map.empty | Some d \<Rightarrow> d) ++ params)
          \<subseteq> set (init_args sk cls) \<longrightarrow>
       get_model sk name params =
         Inr \<lparr>est_class = cls,
              est_params =
                (case map_of default_params name of None \<Rightarrow> Map.empty | Some d \<Rightarrow> d) ++ params,
              fitted = None\<rparr>) \<and>
      (\<not> dom ((case map_of default_params name of None \<Rightarrow> Map.empty | Some d \<Rightarrow> d) ++ params)
          \<subseteq> set (init_args sk cls) \<longrightarrow>
       get_model sk name params =
         Inl (TypeError ''__init__() got an unexpected keyword argument'')))"
proof (intro conjI impI allI)
  assume "name \<notin> {''random_forest'', ''logistic_regression'', ''decision_tree'', ''gradient_boosting''}"
  then have none: "map_of MODELS name = None"
    by (simp add: map_of_MODELS)
  let ?msg = "''Unknown model: '' @ name @ ''. Available: '' @ py_repr_list (map fst MODELS)"
  have g: "get_model sk name params = Inl (ValueError ?msg)"
    by (rule get_model_unknown[OF none])
  have names: "sublist ''random_forest'' ?msg" "sublist ''logistic_regression'' ?msg"
    "sublist ''decision_tree'' ?msg" "sublist ''gradient_boosting'' ?msg"
    by (intro sublist_in_tail available_names)+
  have t: "train sk clock self X_train y_train name params =
      (Inl (ValueError ?msg), self\<lparr>model_name := Some name\<rparr>)"
    by (simp add: train_def g)
  from g names t
  show "\<exists>msg. get_model sk name params = Inl (ValueError msg) \<and>
         sublist ''random_forest'' msg \<and> sublist ''logistic_regression'' msg \<and>
         sublist ''decision_tree'' msg \<and> sublist ''gradient_boosting'' msg \<and>
         train sk clock self X_train y_train name params =
           (Inl (ValueError msg), self\<lparr>model_name := Some name\<rparr>)"
    by blast
next
  fix cls
  assume "(name, cls) \<in> {(''random_forest'', RandomForestClassifier),
                         (''logistic_regression'', LogisticRegression),
                         (''decision_tree'', DecisionTreeClassifier),
                         (''gradient_boosting'', GradientBoostingClassifier)}"
  then have some: "map_of MODELS name = Some cls"
    by (auto simp: map_of_MODELS)
  let ?fp = "(case map_of default_params name of None \<Rightarrow> Map.empty | Some d \<Rightarrow> d) ++ params"
  show g: "get_model sk name params = sk_construct sk cls ?fp"
    by (rule get_model_known[OF some])
  show "get_model sk name params = Inr \<lparr>est_class = cls, est_params = ?fp, fitted = None\<rparr>"
    if "dom ?fp \<subseteq> set (init_args sk cls)"
    using that by (simp add: g sk_construct_def)
  show "get_model sk name params =
      Inl (TypeError ''__init__() got an unexpected keyword argument'')"
    if "\<not> dom ?fp \<subseteq> set (init_args sk cls)"
    using that by (simp add: g sk_construct_def)
qed

text \<open>
  The name \<open>svm\<close> is refused; \<open>decision_tree\<close> without further hyperparameters builds a
  decision tree; \<open>random_forest\<close> with the keyword \<open>bogus\<close> raises.
\<close>

theorem get_model_unknown_fails_known_reaches_constructor_witness:
  "''svm'' \<notin> {''random_forest'', ''logistic_regression'', ''decision_tree'', ''gradient_boosting''} \<and>
   (\<exists>msg. train stub_sklearn (''t0'', ''t1'', 1) (new_trainer ''artifacts'') example_matrix
             [0, 1, 1] ''svm'' Map.empty =
           (Inl (ValueError msg),
            \<lparr>artifacts_path = ''artifacts'', model = None, model_name = Some ''svm'',
             training_info = []\<rparr>) \<and>
          sublist ''gradient_boosting'' msg) \<and>
   get_model stub_sklearn ''decision_tree'' Map.empty =
     Inr \<lparr>est_class = DecisionTreeClassifier, est_params = [''random_state'' \<mapsto> PInt 42],
          fitted = None\<rparr> \<and>
   get_model stub_sklearn ''random_forest'' [''bogus'' \<mapsto> PInt 1] =
     Inl (TypeError ''__init__() got an unexpected keyword argument'')"
proof -
  note t = get_model_unknown_fails_known_reaches_constructor[where sk = stub_sklearn]
  have a: "''svm'' \<notin> {''random_forest'', ''logistic_regression'', ''decision_tree'',
      ''gradient_boosting''}"
    by simp
  from t[where name = "''svm''" and params = Map.empty and clock = "(''t0'', ''t1'', 1)"
      and self = "new_trainer ''artifacts''" and X_train = example_matrix
      and y_train = "[0, 1, 1]"] a
  have b: "\<exists>msg. train stub_sklearn (''t0'', ''t1'', 1) (new_trainer ''artifacts'') example_matrix
             [0, 1, 1] ''svm'' Map.empty =
           (Inl (ValueError msg),
            \<lparr>artifacts_path = ''artifacts'', model = None, model_name = Some ''svm'',
             training_info = []\<rparr>) \<and>
          sublist ''gradient_boosting'' msg"
    by (auto simp: new_trainer_def)
  have d: "(''decision_tree'', DecisionTreeClassifier) \<in>
      {(''random_forest'', RandomForestClassifier),
       (''logistic_regression'', LogisticRegression),
       (''decision_tree'', DecisionTreeClassifier),
       (''gradient_boosting'', GradientBoostingClassifier)}"
    by simp
  have e: "(case map_of default_params ''decision_tree'' of None \<Rightarrow> Map.empty | Some d \<Rightarrow> d)
      ++ Map.empty = [''random_state'' \<mapsto> PInt 42]"
    by (simp add: default_params_def)
  have f: "dom [''random_state'' \<mapsto> PInt 42] \<subseteq> set (init_args stub_sklearn DecisionTreeClassifier)"
    by (simp add: stub_sklearn_def)
  from t[where name = "''decision_tree''" and params = Map.empty,
      THEN conjunct2, rule_format, OF d, THEN conjunct2, THEN conjunct1]
  have c: "get_model stub_sklearn ''decision_tree'' Map.empty =
     Inr \<lparr>est_class = DecisionTreeClassifier, est_params = [''random_state'' \<mapsto> PInt 42],
          fitted = None\<rparr>"
    unfolding e using f by simp
  have r: "(''random_forest'', RandomForestClassifier) \<in>
      {(''random_forest'', RandomForestClassifier),
       (''logistic_regression'', LogisticRegression),
       (''decision_tree'', DecisionTreeClassifier),
       (''gradient_boosting'', GradientBoostingClassifier)}"
    by simp
  have g: "\<not> dom ((case map_of default_params ''random_forest'' of None \<Rightarrow> Map.empty | Some d \<Rightarrow> d)
      ++ [''bogus'' \<mapsto> PInt 1]) \<subseteq> set (init_args stub_sklearn RandomForestClassifier)"
    by (simp add: default_params_def stub_sklearn_def)
  from t[where name = "''random_forest''" and params = "[''bogus'' \<mapsto> PInt 1]",
      THEN conjunct2, rule_format, OF r, THEN conjunct2, THEN conjunct2, rule_format, OF g]
  have h: "get_model stub_sklearn ''random_forest'' [''bogus'' \<mapsto> PInt 1] =
     Inl (TypeError ''__init__() got an unexpected keyword argument'')" .
  from a b c h show ?thesis by blast
qed

lemma override_eq:
  "(d ++ params) = (\<lambda>k. case params k of Some v \<Rightarrow> Some v | None \<Rightarrow> d k)"
  by (rule ext) (simp add: map_add_def split: option.splits)

text \<open>
  Claim C6. For each of the four model types and every dict of caller-supplied
  hyperparameters, the arguments the model is constructed with are the defaults of that
  type (random_forest: \<open>n_estimators = 100\<close>, \<open>random_state = 42\<close>; logistic_regression:
  \<open>random_state = 42\<close>, \<open>max_iter = 1000\<close>; decision_tree: \<open>random_state = 42\<close>;
  gradient_boosting: \<open>n_estimators = 100\<close>, \<open>random_state = 42\<close>), each replaced by the
  caller's value where the caller gives that name and kept otherwise; the estimator that
  the constructor returns holds exactly these arguments.
\<close>

theorem get_model_resolved_hyperparameters:
  "get_model sk ''random_forest'' params =
     sk_construct sk RandomForestClassifier
       (\<lambda>k. case params k of Some v \<Rightarrow> Some v
           | None \<Rightarrow> [''n_estimators'' \<mapsto> PInt 100, ''random_state'' \<mapsto> PInt 42] k) \<and>
   get_model sk ''logistic_regression'' params =
     sk_construct sk LogisticRegression
       (\<lambda>k. case params k of Some v \<Rightarrow> Some v
           | None \<Rightarrow> [''random_state'' \<mapsto> PInt 42, ''max_iter'' \<mapsto> PInt 1000] k) \<and>
   get_model sk ''decision_tree'' params =
     sk_construct sk DecisionTreeClassifier
       (\<lambda>k. case params k of Some v \<Rightarrow> Some v
           | None \<Rightarrow> [''random_state'' \<mapsto> PInt 42] k) \<and>
   get_model sk ''gradient_boosting'' params =
     sk_construct sk GradientBoostingClassifier
       (\<lambda>k. case params k of Some v \<Rightarrow> Some v
           | None \<Rightarrow> [''n_estimators'' \<mapsto> PInt 100, ''random_state'' \<mapsto> PInt 42] k) \<and>
   (\<forall>cls final_params m. sk_construct sk cls final_params = Inr m \<longrightarrow>
      est_class m = cls \<and> est_params m = final_params)"
proof (intro conjI allI impI)
  show "get_model sk ''random_forest'' params =
     sk_construct sk RandomForestClassifier
       (\<lambda>k. case params k of Some v \<Rightarrow> Some v
           | None \<Rightarrow> [''n_estimators'' \<mapsto> PInt 100, ''random_state'' \<mapsto> PInt 42] k)"
    by (simp add: get_model_def MODELS_def default_params_def override_eq)
  show "get_model sk ''logistic_regression'' params =
     sk_construct sk LogisticRegression
       (\<lambda>k. case params k of Some v \<Rightarrow> Some v
           | None \<Rightarrow> [''random_state'' \<mapsto> PInt 42, ''max_iter'' \<mapsto> PInt 1000] k)"
    by (simp add: get_model_def MODELS_def default_params_def override_eq)
  show "get_model sk ''decision_tree'' params =
     sk_construct sk DecisionTreeClassifier
       (\<lambda>k. case params k of Some v \<Rightarrow> Some v
           | None \<Rightarrow> [''random_state'' \<mapsto> PInt 42] k)"
    by (simp add: get_model_def MODELS_def default_params_def override_eq)
  show "get_model sk ''gradient_boosting'' params =
     sk_construct sk GradientBoostingClassifier
       (\<lambda>k. case params k of Some v \<Rightarrow> Some v
           | None \<Rightarrow> [''n_estimators'' \<mapsto> PInt 100, ''random_state'' \<mapsto> PInt 42] k)"
    by (simp add: get_model_def MODELS_def default_params_def override_eq)
next
  fix cls final_params and m :: "'a estimator"
  assume "sk_construct sk cls final_params = Inr m"
  then show "est_class m = cls" "est_params m = final_params"
    by (auto simp: sk_construct_def split: if_splits)
qed


text \<open>
  A random forest with \<open>n_estimators = 10\<close> and \<open>max_depth = 3\<close> supplied: the supplied
  values are used and \<open>random_state\<close> keeps its default.
\<close>

theorem get_model_resolved_hyperparameters_witness:
  "\<exists>m. get_model stub_sklearn ''random_forest''
          [''n_estimators'' \<mapsto> PInt 10, ''max_depth'' \<mapsto> PInt 3] = Inr m \<and>
       est_params m ''n_estimators'' = Some (PInt 10) \<and>
       est_params m ''random_state'' = Some (PInt 42) \<and>
       est_params m ''max_depth'' = Some (PInt 3) \<and>
       est_params m ''max_iter'' = None"
proof -
  let ?p = "[''n_estimators'' \<mapsto> PInt 10, ''max_depth'' \<mapsto> PInt 3]"
  let ?fp = "\<lambda>k. case ?p k of Some v \<Rightarrow> Some v
           | None \<Rightarrow> [''n_estimators'' \<mapsto> PInt 100, ''random_state'' \<mapsto> PInt 42] k"
  note t = get_model_resolved_hyperparameters[where sk = stub_sklearn and params = ?p]
  have g: "get_model stub_sklearn ''random_forest'' ?p =
      sk_construct stub_sklearn RandomForestClassifier ?fp"
    using t by blast
  have "dom ?fp \<subseteq> set (init_args stub_sklearn RandomForestClassifier)"
    by (auto simp: stub_sklearn_def dom_def split: if_splits)
  then obtain m where m: "sk_construct stub_sklearn RandomForestClassifier ?fp = Inr m"
    by (simp add: sk_construct_def)
  with t have "est_params m = ?fp" by blast
  then have "est_params m ''n_estimators'' = Some (PInt 10) \<and>
       est_params m ''random_state'' = Some (PInt 42) \<and>
       est_params m ''max_depth'' = Some (PInt 3) \<and>
       est_params m ''max_iter'' = None"
    by simp
  with g m show ?thesis by auto
qed

lemma joblib_dump_writable:
  "writable fs path \<Longrightarrow>
   joblib_dump jl v path fs = Inr (fs\<lparr>files := (files fs)(path \<mapsto> dump jl v)\<rparr>)"
  by (simp add: joblib_dump_def)

lemma joblib_load_after_dump:
  "load jl (dump jl v) = Inr v \<Longrightarrow>
   joblib_load jl path (fs\<lparr>files := (files fs)(path \<mapsto> dump jl v)\<rparr>) = Inr v"
  by (simp add: joblib_load_def)

text \<open>
  Claim C7. Round trip: for a trainer that holds a model, on a path that can be
  written, and a pickler whose \<^verbatim>\<open>load\<close> reads back what its \<^verbatim>\<open>dump\<close> wrote,
  \<^verbatim>\<open>save_model\<close> returns the path it wrote, and \<^verbatim>\<open>load_model\<close> of that path into any
  trainer yields the saved model, the training metadata saved with it, and the same
  predictions as the original trainer on every input.
\<close>

theorem save_then_load_round_trip:
  assumes pickles: "\<forall>d. load jl (dump jl d) = Inr d"
    and trained: "model self = Some m"
    and can_write:
      "writable fs (path_join (artifacts_path self) (model_file_name timestamp self filename))"
  shows "\<exists>path fs'.
           save_model jl timestamp self filename fs = Inr (path, fs') \<and>
           load_model jl other path fs' =
             (Inr m, other\<lparr>model := Some m, training_info := training_info self\<rparr>) \<and>
           training_info (snd (load_model jl other path fs')) = training_info self \<and>
           (\<forall>X. predict sk (snd (load_model jl other path fs')) X = predict sk self X)"
proof -
  let ?path = "path_join (artifacts_path self) (model_file_name timestamp self filename)"
  let ?d = "\<lparr>sd_model = Some m, sd_training_info = Some (training_info self)\<rparr>"
  let ?fs' = "fs\<lparr>files := (files fs)(?path \<mapsto> dump jl ?d)\<rparr>"
  have saved: "save_model jl timestamp self filename fs = Inr (?path, ?fs')"
    using trained
    by (simp add: save_model_def Let_def joblib_dump_writable[OF can_write])
  have "load jl (dump jl ?d) = Inr ?d"
    using pickles by blast
  then have "joblib_load jl ?path ?fs' = Inr ?d"
    by (rule joblib_load_after_dump)
  then have loaded: "load_model jl other ?path ?fs' =
      (Inr m, other\<lparr>model := Some m, training_info := training_info self\<rparr>)"
    by (simp add: load_model_def)
  have "predict sk (snd (load_model jl other ?path ?fs')) X = predict sk self X" for X
    using trained by (simp add: loaded predict_def)
  with saved loaded show ?thesis by simp
qed

text \<open>
  A decision tree trained on three samples, saved under the default file name on an
  empty disk and loaded into a new trainer.
\<close>

theorem save_then_load_round_trip_witness:
  "(\<forall>d. load stub_joblib (dump stub_joblib d) = Inr d) \<and>
   model trained_trainer =
     Some \<lparr>est_class = DecisionTreeClassifier, est_params = [''random_state'' \<mapsto> PInt 42],
           fitted = Some 3\<rparr> \<and>
   writable empty_disk
     (path_join (artifacts_path trained_trainer)
        (model_file_name ''20240101_120000'' trained_trainer None)) \<and>
   (\<exists>path fs'.
      save_model stub_joblib ''20240101_120000'' trained_trainer None empty_disk = Inr (path, fs') \<and>
      path = ''artifacts/model_decision_tree_20240101_120000.pkl'' \<and>
      training_info (snd (load_model stub_joblib (new_trainer ''elsewhere'') path fs')) =
        training_info trained_trainer \<and>
      predict stub_sklearn (snd (load_model stub_joblib (new_trainer ''elsewhere'') path fs'))
        example_matrix = Inr [3, 3, 3] \<and>
      predict stub_sklearn trained_trainer example_matrix = Inr [3, 3, 3])"
proof -
  let ?m = "\<lparr>est_class = DecisionTreeClassifier, est_params = [''random_state'' \<mapsto> PInt 42],
           fitted = Some (3::nat)\<rparr>"
  have a: "\<forall>d. load stub_joblib (dump stub_joblib d) = Inr d"
    by (simp add: stub_joblib_def)
  have tt: "trained_trainer =
      \<lparr>artifacts_path = ''artifacts'', model = Some ?m, model_name = Some ''decision_tree'',
       training_info =
         [(''model_name'', PStr ''decision_tree''), (''training_samples'', PInt 3),
          (''features'', PInt 2), (''start_time'', PStr ''t0''), (''end_time'', PStr ''t1''),
          (''duration_seconds'', PFloat 1), (''parameters'', PDict [])]\<rparr>"
    by (simp add: trained_trainer_def train_def get_model_def MODELS_def default_params_def
        sk_construct_def stub_sklearn_def new_trainer_def example_matrix_def Let_def)
  have b: "model trained_trainer = Some ?m"
    by (simp add: tt)
  have p: "path_join (artifacts_path trained_trainer)
        (model_file_name ''20240101_120000'' trained_trainer None) =
      ''artifacts/model_decision_tree_20240101_120000.pkl''"
    by (simp add: tt path_join_def model_file_name_def)
  have c: "writable empty_disk (path_join (artifacts_path trained_trainer)
        (model_file_name ''20240101_120000'' trained_trainer None))"
    by (simp add: empty_disk_def)
  have q: "predict stub_sklearn trained_trainer example_matrix = Inr [3, 3, 3]"
    by (simp add: tt predict_def estimator_predict_def stub_sklearn_def example_matrix_def)
  from save_then_load_round_trip[OF a b c, where other = "new_trainer ''elsewhere''"
      and sk = stub_sklearn]
  obtain path fs' where s:
    "save_model stub_joblib ''20240101_120000'' trained_trainer None empty_disk = Inr (path, fs')"
    "training_info (snd (load_model stub_joblib (new_trainer ''elsewhere'') path fs')) =
        training_info trained_trainer"
    "\<forall>X. predict stub_sklearn (snd (load_model stub_joblib (new_trainer ''elsewhere'') path fs')) X
        = predict stub_sklearn trained_trainer X"
    by blast
  from s(1) b have "path = path_join (artifacts_path trained_trainer)
        (model_file_name ''20240101_120000'' trained_trainer None)"
    by (auto simp: save_model_def Let_def split: sum.splits)
  then have "path = ''artifacts/model_decision_tree_20240101_120000.pkl''"
    by (simp only: p)
  moreover have "predict stub_sklearn
      (snd (load_model stub_joblib (new_trainer ''elsewhere'') path fs')) example_matrix
      = Inr [3, 3, 3]"
    using s(3) q by simp
  ultimately show ?thesis
    using a b c q s(1) s(2) by blast
qed


section \<open>Properties of model evaluation\<close>

lemma calculate_metrics_raises:
  "fst (calculate_metrics sk self y_true y_pred y_proba) = Inl e \<longleftrightarrow>
   metrics_dict sk y_true y_pred = Inl e"
  by (simp add: calculate_metrics_def Let_def split: option.splits sum.splits)

lemma calculate_metrics_returns:
  "metrics_dict sk y_true y_pred = Inr m \<Longrightarrow>
   fst (calculate_metrics sk self y_true y_pred y_proba) =
     Inr (m\<lparr>roc_auc :=
            (case y_proba of
               None \<Rightarrow> roc_auc m
             | Some pr \<Rightarrow>
                 if length (remdups y_true) = 2
                 then Some (case roc_auc_try sk y_true pr of Inl e \<Rightarrow> None | Inr auc \<Rightarrow> Some auc)
                 else roc_auc m)\<rparr>)"
  by (simp add: calculate_metrics_def Let_def split: option.splits sum.splits)

text \<open>
  Claim C8. \<^verbatim>\<open>calculate_metrics\<close> computes the ROC-AUC only when the true labels hold
  exactly two distinct classes and a probability output is supplied; in every other case
  the key \<^verbatim>\<open>roc_auc\<close> is absent. It takes column 1, the positive class, of a
  two-dimensional probability array and a one-dimensional array as it is. When that
  computation raises (no \<^verbatim>\<open>shape\<close>, no column 1, or \<^verbatim>\<open>roc_auc_score\<close> itself),
  \<^verbatim>\<open>roc_auc\<close> is recorded as null and accuracy, precision, recall, F1 and the confusion
  matrix are returned all the same: the only exceptions that leave \<^verbatim>\<open>calculate_metrics\<close>
  are those of the five metrics that are always computed.
\<close>

theorem calculate_metrics_roc_auc:
  "(sk_accuracy_score sk y_true y_pred = Inr a \<and>
    sk_precision_score sk y_true y_pred = Inr p \<and>
    sk_recall_score sk y_true y_pred = Inr r \<and>
    sk_f1_score sk y_true y_pred = Inr f \<and>
    sk_confusion_matrix sk y_true y_pred = Inr c \<longrightarrow>
    fst (calculate_metrics sk self y_true y_pred y_proba) =
      Inr \<lparr>accuracy = a, precision = p, recall = r, f1_score = f, confusion_matrix = c,
           n_classes = length (remdups y_true), samples_evaluated = length y_true,
           roc_auc =
             (case y_proba of
                None \<Rightarrow> None
              | Some pr \<Rightarrow>
                  if length (remdups y_true) = 2
                  then Some (case roc_auc_try sk y_true pr of
                               Inl e \<Rightarrow> None | Inr auc \<Rightarrow> Some auc)
                  else None)\<rparr>) \<and>
   (fst (calculate_metrics sk self y_true y_pred y_proba) = Inl e \<longrightarrow>
      metrics_dict sk y_true y_pred = Inl e) \<and>
   roc_auc_try sk y_true (Array2D n_columns rows) =
     (if 1 < n_columns then sk_roc_auc_score sk y_true (map (\<lambda>row. row ! 1) rows)
      else Inl (IndexError ''index 1 is out of bounds for axis 1'')) \<and>
   roc_auc_try sk y_true (Array1D scores) = sk_roc_auc_score sk y_true scores \<and>
   roc_auc_try sk y_true NoShape = Inl (AttributeError ''shape'')"
proof (intro conjI impI)
  assume ok: "sk_accuracy_score sk y_true y_pred = Inr a \<and>
    sk_precision_score sk y_true y_pred = Inr p \<and>
    sk_recall_score sk y_true y_pred = Inr r \<and>
    sk_f1_score sk y_true y_pred = Inr f \<and>
    sk_confusion_matrix sk y_true y_pred = Inr c"
  then have "metrics_dict sk y_true y_pred =
      Inr \<lparr>accuracy = a, precision = p, recall = r, f1_score = f, confusion_matrix = c,
           n_classes = length (remdups y_true), samples_evaluated = length y_true,
           roc_auc = None\<rparr>"
    by (simp add: metrics_dict_def)
  from calculate_metrics_returns[OF this]
  show "fst (calculate_metrics sk self y_true y_pred y_proba) =
      Inr \<lparr>accuracy = a, precision = p, recall = r, f1_score = f, confusion_matrix = c,
           n_classes = length (remdups y_true), samples_evaluated = length y_true,
           roc_auc =
             (case y_proba of
                None \<Rightarrow> None
              | Some pr \<Rightarrow>
                  if length (remdups y_true) = 2
                  then Some (case roc_auc_try sk y_true pr of
                               Inl e \<Rightarrow> None | Inr auc \<Rightarrow> Some auc)
                  else None)\<rparr>"
    by (simp split: option.splits)
next
  assume "fst (calculate_metrics sk self y_true y_pred y_proba) = Inl e"
  then show "metrics_dict sk y_true y_pred = Inl e"
    by (simp only: calculate_metrics_raises)
qed (simp_all add: roc_auc_try_def)

text \<open>
  Binary labels with a one-column probability array (column 1 is missing, \<^verbatim>\<open>roc_auc\<close>
  is null), with a two-column array (a value), and three classes (no \<^verbatim>\<open>roc_auc\<close>).
\<close>

theorem calculate_metrics_roc_auc_witness:
  "sk_accuracy_score stub_metrics [0, 1, 1, 0, 1] [0, 1, 0, 0, 1] = Inr 1 \<and>
   sk_precision_score stub_metrics [0, 1, 1, 0, 1] [0, 1, 0, 0, 1] = Inr 1 \<and>
   sk_recall_score stub_metrics [0, 1, 1, 0, 1] [0, 1, 0, 0, 1] = Inr 1 \<and>
   sk_f1_score stub_metrics [0, 1, 1, 0, 1] [0, 1, 0, 0, 1] = Inr 1 \<and>
   sk_confusion_matrix stub_metrics [0, 1, 1, 0, 1] [0, 1, 0, 0, 1] = Inr [] \<and>
   fst (calculate_metrics stub_metrics \<lparr>ev_artifacts_path = ''artifacts'', ev_metrics = None\<rparr>
          [0, 1, 1, 0, 1] [0, 1, 0, 0, 1] (Some (Array2D 1 [[1], [1], [1], [1], [1]]))) =
     Inr \<lparr>accuracy = 1, precision = 1, recall = 1, f1_score = 1, confusion_matrix = [],
          n_classes = 2, samples_evaluated = 5, roc_auc = Some None\<rparr> \<and>
   fst (calculate_metrics stub_metrics \<lparr>ev_artifacts_path = ''artifacts'', ev_metrics = None\<rparr>
          [0, 1, 1, 0, 1] [0, 1, 0, 0, 1]
          (Some (Array2D 2 [[1, 0], [0, 1], [0, 1], [1, 0], [0, 1]]))) =
     Inr \<lparr>accuracy = 1, precision = 1, recall = 1, f1_score = 1, confusion_matrix = [],
          n_classes = 2, samples_evaluated = 5, roc_auc = Some (Some (1 / 2))\<rparr> \<and>
   fst (calculate_metrics stub_metrics \<lparr>ev_artifacts_path = ''artifacts'', ev_metrics = None\<rparr>
          [0, 1, 2, 0, 1] [0, 1, 0, 0, 1]
          (Some (Array2D 2 [[1, 0], [0, 1], [0, 1], [1, 0], [0, 1]]))) =
     Inr \<lparr>accuracy = 1, precision = 1, recall = 1, f1_score = 1, confusion_matrix = [],
          n_classes = 3, samples_evaluated = 5, roc_auc = None\<rparr>"
proof -
  have s: "sk_accuracy_score stub_metrics t q = Inr 1 \<and> sk_precision_score stub_metrics t q = Inr 1 \<and>
    sk_recall_score stub_metrics t q = Inr 1 \<and> sk_f1_score stub_metrics t q = Inr 1 \<and>
    sk_confusion_matrix stub_metrics t q = Inr []" for t q
    by (simp add: stub_metrics_def)
  note t = calculate_metrics_roc_auc[where sk = stub_metrics
      and self = "\<lparr>ev_artifacts_path = ''artifacts'', ev_metrics = None\<rparr>",
      THEN conjunct1, rule_format, OF s]
  show ?thesis
    using t[where y_true = "[0, 1, 1, 0, 1]" and y_pred = "[0, 1, 0, 0, 1]"
        and y_proba = "Some (Array2D 1 [[1], [1], [1], [1], [1]])"]
      t[where y_true = "[0, 1, 1, 0, 1]" and y_pred = "[0, 1, 0, 0, 1]"
        and y_proba = "Some (Array2D 2 [[1, 0], [0, 1], [0, 1], [1, 0], [0, 1]])"]
      t[where y_true = "[0, 1, 2, 0, 1]" and y_pred = "[0, 1, 0, 0, 1]"
        and y_proba = "Some (Array2D 2 [[1, 0], [0, 1], [0, 1], [1, 0], [0, 1]])"]
    by (simp add: s roc_auc_try_def) (simp add: stub_metrics_def)
qed


section \<open>Properties of the batch endpoint\<close>

text \<open>
  Claim C1 says that \<^verbatim>\<open>POST /predict/batch\<close> answers a well-formed request with the
  predictions of the default model and their count when that model is loaded, with 503
  when it is not, and with 400 on malformed input. The handler does none of this. It
  reads \<^verbatim>\<open>model_trainer\<close>, a name that routes.py binds nowhere and that is no builtin,
  before its \<^verbatim>\<open>try\<close>: for every set of loaded models and every request it raises
  \<^verbatim>\<open>NameError\<close>, which the framework answers with status 500.
\<close>

theorem predict_batch_raises_NameError:
  "''model_trainer'' \<notin> set builtins \<Longrightarrow>
   predict_batch sk builtins m request = Inl (NameError ''model_trainer'') \<and>
   status_code (predict_batch sk builtins m request) = 500"
  by (simp add: predict_batch_def load_global_def routes_names_def)

text \<open>
  Two copies of the example vector with \<open>random_forest\<close> loaded: the handler raises,
  where the endpoint as documented returns two equal predictions and the count 2.
\<close>

theorem predict_batch_raises_NameError_witness:
  "''model_trainer'' \<notin> set used_builtins \<and>
   predict_batch stub_sklearn used_builtins example_module
     \<lparr>instances = [example_features, example_features]\<rparr> = Inl (NameError ''model_trainer'') \<and>
   status_code (predict_batch stub_sklearn used_builtins example_module
     \<lparr>instances = [example_features, example_features]\<rparr>) = 500 \<and>
   predict_batch_spec stub_sklearn example_module
     \<lparr>instances = [example_features, example_features]\<rparr> = Inr \<lparr>predictions = [3, 3], count = 2\<rparr>"
proof -
  have a: "''model_trainer'' \<notin> set used_builtins"
    by (simp add: used_builtins_def)
  have tt: "model trained_trainer =
      Some \<lparr>est_class = DecisionTreeClassifier, est_params = [''random_state'' \<mapsto> PInt 42],
           fitted = Some 3\<rparr>"
    by (simp add: trained_trainer_def train_def get_model_def MODELS_def default_params_def
        sk_construct_def stub_sklearn_def new_trainer_def example_matrix_def Let_def)
  have "predict_batch_spec stub_sklearn example_module
     \<lparr>instances = [example_features, example_features]\<rparr> = Inr \<lparr>predictions = [3, 3], count = 2\<rparr>"
    by (simp add: predict_batch_spec_def routes_get_model_def example_module_def
        set_loaded_models_def default_model_name_def tt np_array_def predict_def
        estimator_predict_def stub_sklearn_def)
  with a predict_batch_raises_NameError[OF a, of stub_sklearn example_module
      "\<lparr>instances = [example_features, example_features]\<rparr>"]
  show ?thesis by simp
qed


section \<open>Properties of data preprocessing\<close>

lemma prefix_update: "prefix xs ys \<Longrightarrow> length xs \<le> i \<Longrightarrow> prefix xs (ys[i := v])"
  by (auto simp: prefix_def list_update_append)

lemma prefix_nth: "prefix xs ys \<Longrightarrow> i < length xs \<Longrightarrow> ys ! i = xs ! i"
  by (auto simp: prefix_def nth_append)

lemma assign_imputed_prefix:
  assumes "(if c then assign_imputed lib strategy store data cols else Inr store) = Inr store'"
    and "prefix base store" and "length base \<le> data"
  shows "prefix base store' \<and> length store' = length store"
proof (cases c)
  case True
  with assms(1) obtain d where "store' = store[data := d]"
    by (auto simp: assign_imputed_def split: sum.splits)
  with assms(2,3) show ?thesis by (simp add: prefix_update)
next
  case False
  with assms show ?thesis by simp
qed

lemma handle_missing_values_unfold:
  "handle_missing_values lib store data ns cs =
     (case (if length (select_dtypes is_number ((store @ [store ! data, store ! data]) ! Suc (length store))) > 0
            then assign_imputed lib ns (store @ [store ! data, store ! data]) (Suc (length store))
                   (select_dtypes is_number ((store @ [store ! data, store ! data]) ! Suc (length store)))
            else Inr (store @ [store ! data, store ! data])) of
        Inl e \<Rightarrow> (Inl e, store @ [store ! data, store ! data])
      | Inr store3 \<Rightarrow>
          (case (if length (select_dtypes (\<lambda>d. d = Object) (store3 ! Suc (length store))) > 0
                 then assign_imputed lib cs store3 (Suc (length store))
                        (select_dtypes (\<lambda>d. d = Object) (store3 ! Suc (length store)))
                 else Inr store3) of
             Inl e \<Rightarrow> (Inl e, store3)
           | Inr store4 \<Rightarrow> (Inr (Suc (length store)), store4)))"
  by (simp add: handle_missing_values_def alloc_def Let_def nth_append cong: sum.case_cong if_cong)

lemma handle_missing_values_frame:
  "prefix store (snd (handle_missing_values lib store data ns cs)) \<and>
   (\<forall>r. fst (handle_missing_values lib store data ns cs) = Inr r \<longrightarrow>
        length store \<le> r \<and> r < length (snd (handle_missing_values lib store data ns cs)))"
proof -
  let ?s2 = "store @ [store ! data, store ! data]"
  let ?d2 = "Suc (length store)"
  let ?A = "if length (select_dtypes is_number (?s2 ! ?d2)) > 0
            then assign_imputed lib ns ?s2 ?d2 (select_dtypes is_number (?s2 ! ?d2))
            else Inr ?s2"
  have p2: "prefix store ?s2" by simp
  show ?thesis
  proof (cases ?A)
    case (Inl e)
    then show ?thesis
      by (simp only: handle_missing_values_unfold) simp
  next
    case A: (Inr s3)
    from assign_imputed_prefix[OF A p2] have p3: "prefix store s3" and l3: "length s3 = length ?s2"
      by simp_all
    let ?B = "if length (select_dtypes (\<lambda>d. d = Object) (s3 ! ?d2)) > 0
              then assign_imputed lib cs s3 ?d2 (select_dtypes (\<lambda>d. d = Object) (s3 ! ?d2))
              else Inr s3"
    show ?thesis
    proof (cases ?B)
      case (Inl e)
      with A p3 show ?thesis
        by (simp only: handle_missing_values_unfold) simp
    next
      case B: (Inr s4)
      from assign_imputed_prefix[OF B p3] l3 have "prefix store s4" "length s4 = length store + 2"
        by simp_all
      with A B show ?thesis
        by (simp only: handle_missing_values_unfold) simp
    qed
  qed
qed


lemma encode_loop_prefix:
  "prefix base store \<Longrightarrow> length base \<le> data \<Longrightarrow>
   prefix base (snd (snd (encode_loop lib cols data self store))) \<and>
   length (snd (snd (encode_loop lib cols data self store))) = length store"
proof (induction lib cols data self store rule: encode_loop.induct)
  case (1 lib data self store)
  then show ?case by simp
next
  case (2 lib col cols data self store)
  show ?case
  proof (cases "col \<in> set (labels (store ! data))")
    case False
    with 2 show ?thesis by simp
  next
    case True
    show ?thesis
    proof (cases "frame_getitem (store ! data) col")
      case (Inl e)
      with True 2 show ?thesis by simp
    next
      case s: (Inr s)
      show ?thesis
      proof (cases "label_fit_transform lib (astype_str lib s)")
        case (Inl e)
        with True s 2 show ?thesis by simp
      next
        case (Inr cc)
        obtain codes classes where cc: "cc = (codes, classes)" by (cases cc)
        show ?thesis
        proof (cases "frame_set_codes (store ! data) col codes")
          case (Inl e)
          with True s Inr cc 2 show ?thesis by simp
        next
          case d: (Inr d)
          have "prefix base (store[data := d])"
            using "2.prems" by (simp add: prefix_update)
          from "2.IH"(1)[OF True s Inr cc[symmetric] d this "2.prems"(2)]
          show ?thesis
            using True s Inr cc d by simp
        qed
      qed
    qed
  qed
qed

lemma encode_categorical_unfold:
  "encode_categorical lib self store data cols =
     (case fst (encode_loop lib
             (case cols of None \<Rightarrow> select_dtypes (\<lambda>d. d = Object) (store ! data) | Some cs \<Rightarrow> cs)
             (length store) self (store @ [store ! data])) of
        Some e \<Rightarrow> Inl e | None \<Rightarrow> Inr (length store),
      snd (encode_loop lib
             (case cols of None \<Rightarrow> select_dtypes (\<lambda>d. d = Object) (store ! data) | Some cs \<Rightarrow> cs)
             (length store) self (store @ [store ! data])))"
proof -
  let ?cols = "case cols of None \<Rightarrow> select_dtypes (\<lambda>d. d = Object) (store ! data) | Some cs \<Rightarrow> cs"
  obtain e self' store' where
    r: "encode_loop lib ?cols (length store) self (store @ [store ! data]) = (e, self', store')"
    by (cases "encode_loop lib ?cols (length store) self (store @ [store ! data])")
  have c: "(case cols of None \<Rightarrow> select_dtypes (\<lambda>d. d = Object) ((store @ [store ! data]) ! length store)
             | Some cs \<Rightarrow> cs) = ?cols"
    by (cases cols) simp_all
  show ?thesis
    by (cases e) (simp_all add: encode_categorical_def alloc_def Let_def c r del: nth_append_length)
qed

lemma encode_categorical_frame:
  "prefix store (snd (snd (encode_categorical lib self store data cols))) \<and>
   (\<forall>r. fst (encode_categorical lib self store data cols) = Inr r \<longrightarrow>
        length store \<le> r \<and> r < length (snd (snd (encode_categorical lib self store data cols))))"
proof -
  have "prefix store (store @ [store ! data])" "length store \<le> length store" by simp_all
  from encode_loop_prefix[OF this]
  show ?thesis
    by (auto simp: encode_categorical_unfold split: option.splits)
qed

lemma scale_features_frame:
  "prefix store (snd (snd (scale_features lib self store data cols))) \<and>
   (\<forall>r. fst (scale_features lib self store data cols) = Inr r \<longrightarrow>
        length store \<le> r \<and> r < length (snd (snd (scale_features lib self store data cols))))"
  by (simp add: scale_features_def alloc_def Let_def case_prod_beta prefix_update
      split: sum.splits option.splits)

text \<open>
  Claim C9. Each of \<^verbatim>\<open>handle_missing_values\<close>, \<^verbatim>\<open>encode_categorical\<close> and
  \<^verbatim>\<open>scale_features\<close> leaves the DataFrame it is given as it was, for every input and
  whether the call returns or raises: the object at the argument's address, and every
  other object that existed before the call, has the same columns and values afterwards.
  The table a call returns is a new object at an address that did not exist before, so
  it is not the argument.
\<close>

theorem preprocessing_steps_leave_input_unchanged:
  assumes "data < length store"
  shows "snd (handle_missing_values lib store data ns cs) ! data = store ! data \<and>
         snd (snd (encode_categorical lib self store data cols)) ! data = store ! data \<and>
         snd (snd (scale_features lib self store data cols)) ! data = store ! data \<and>
         (\<forall>r. fst (handle_missing_values lib store data ns cs) = Inr r \<longrightarrow>
              r \<noteq> data \<and> length store \<le> r \<and>
              r < length (snd (handle_missing_values lib store data ns cs))) \<and>
         (\<forall>r. fst (encode_categorical lib self store data cols) = Inr r \<longrightarrow>
              r \<noteq> data \<and> length store \<le> r \<and>
              r < length (snd (snd (encode_categorical lib self store data cols)))) \<and>
         (\<forall>r. fst (scale_features lib self store data cols) = Inr r \<longrightarrow>
              r \<noteq> data \<and> length store \<le> r \<and>
              r < length (snd (snd (scale_features lib self store data cols)))) \<and>
         prefix store (snd (handle_missing_values lib store data ns cs)) \<and>
         prefix store (snd (snd (encode_categorical lib self store data cols))) \<and>
         prefix store (snd (snd (scale_features lib self store data cols)))"
  using assms handle_missing_values_frame[of store lib data ns cs]
    encode_categorical_frame[of store lib self data cols]
    scale_features_frame[of store lib self data cols]
  by (auto simp: prefix_nth)

text \<open>
  A table with a missing number and a missing string: each method returns a new table
  that differs from the input, and the input is still what it was.
\<close>

theorem preprocessing_steps_leave_input_unchanged_witness:
  "(0::nat) < length [labelled_frame] \<and>
   fst (handle_missing_values stub_preprocessing [labelled_frame] 0 ''mean'' ''most_frequent'')
     = Inr 2 \<and>
   snd (handle_missing_values stub_preprocessing [labelled_frame] 0 ''mean'' ''most_frequent'') ! 0
     = labelled_frame \<and>
   snd (handle_missing_values stub_preprocessing [labelled_frame] 0 ''mean'' ''most_frequent'') ! 2
     \<noteq> labelled_frame \<and>
   fst (encode_categorical stub_preprocessing (new_preprocessor ''data/processed'' ''artifacts'')
          [labelled_frame] 0 None) = Inr 1 \<and>
   snd (snd (encode_categorical stub_preprocessing
               (new_preprocessor ''data/processed'' ''artifacts'') [labelled_frame] 0 None)) ! 0
     = labelled_frame \<and>
   snd (snd (encode_categorical stub_preprocessing
               (new_preprocessor ''data/processed'' ''artifacts'') [labelled_frame] 0 None)) ! 1
     \<noteq> labelled_frame \<and>
   fst (scale_features stub_preprocessing (new_preprocessor ''data/processed'' ''artifacts'')
          [labelled_frame] 0 None) = Inr 1 \<and>
   snd (snd (scale_features stub_preprocessing
               (new_preprocessor ''data/processed'' ''artifacts'') [labelled_frame] 0 None)) ! 0
     = labelled_frame \<and>
   snd (snd (scale_features stub_preprocessing
               (new_preprocessor ''data/processed'' ''artifacts'') [labelled_frame] 0 None)) ! 1
     \<noteq> labelled_frame"
proof -
  have a: "(0::nat) < length [labelled_frame]" by simp
  note t = preprocessing_steps_leave_input_unchanged[OF a, where lib = stub_preprocessing
      and self = "new_preprocessor ''data/processed'' ''artifacts''" and ns = "''mean''"
      and cs = "''most_frequent''" and cols = None]
  have h: "fst (handle_missing_values stub_preprocessing [labelled_frame] 0 ''mean''
      ''most_frequent'') = Inr 2"
    by code_simp
  have h': "snd (handle_missing_values stub_preprocessing [labelled_frame] 0 ''mean''
      ''most_frequent'') ! 2 \<noteq> labelled_frame"
    by code_simp
  have e: "fst (encode_categorical stub_preprocessing
      (new_preprocessor ''data/processed'' ''artifacts'') [labelled_frame] 0 None) = Inr 1"
    by code_simp
  have e': "snd (snd (encode_categorical stub_preprocessing
      (new_preprocessor ''data/processed'' ''artifacts'') [labelled_frame] 0 None)) ! 1
      \<noteq> labelled_frame"
    by code_simp
  have s: "fst (scale_features stub_preprocessing
      (new_preprocessor ''data/processed'' ''artifacts'') [labelled_frame] 0 None) = Inr 1"
    by code_simp
  have s': "snd (snd (scale_features stub_preprocessing
      (new_preprocessor ''data/processed'' ''artifacts'') [labelled_frame] 0 None)) ! 1
      \<noteq> labelled_frame"
    by code_simp
  from t have u:
    "snd (handle_missing_values stub_preprocessing [labelled_frame] 0 ''mean'' ''most_frequent'') ! 0
       = labelled_frame"
    "snd (snd (encode_categorical stub_preprocessing
               (new_preprocessor ''data/processed'' ''artifacts'') [labelled_frame] 0 None)) ! 0
       = labelled_frame"
    "snd (snd (scale_features stub_preprocessing
               (new_preprocessor ''data/processed'' ''artifacts'') [labelled_frame] 0 None)) ! 0
       = labelled_frame"
    by simp_all
  from a h h' e e' s s' u show ?thesis by blast
qed


subsection \<open>The pipeline\<close>

lemma scaler_transform_keeps: "snd (scaler_transform lib sc X) = sc"
  by (simp add: scaler_transform_def split: option.splits)

lemma scaler_fit_transform_state:
  "snd (scaler_fit_transform lib sc X) =
     (case scaler_statistics lib X of Inl e \<Rightarrow> None | Inr p \<Rightarrow> Some p)"
  by (simp add: scaler_fit_transform_def scaler_fit_def scaler_transform_def split: sum.splits)

lemma scaler_fit_transform_returns:
  "fst (scaler_fit_transform lib sc X) = Inr arr \<Longrightarrow> \<exists>p. scaler_statistics lib X = Inr p"
  by (simp add: scaler_fit_transform_def scaler_fit_def split: sum.splits)

lemma frame_select_all:
  "\<exists>F. frame_select data (labels data) = Inr F"
  by (simp add: frame_select_def)

lemma scale_partitions_scaler:
  "frame_select (store ! X_train) (labels (store ! X_train)) = Inr F \<Longrightarrow>
   scaler (fst (snd (scale_partitions lib self store X_train X_test))) =
     snd (scaler_fit_transform lib (scaler self) F)"
  by (simp add: scale_partitions_def Let_def case_prod_beta scaler_transform_keeps
      split: sum.splits)

lemma scale_partitions_returns:
  "fst (scale_partitions lib self store X_train X_test) = None \<Longrightarrow>
   frame_select (store ! X_train) (labels (store ! X_train)) = Inr F \<Longrightarrow>
   \<exists>arr. fst (scaler_fit_transform lib (scaler self) F) = Inr arr"
  by (simp add: scale_partitions_def Let_def case_prod_beta split: sum.splits)

lemma preprocess_pipeline_returns:
  assumes "fst (preprocess_pipeline lib self store fs data target_column test_size) = Inr parts"
  shows "\<exists>self1 store1.
           prepare_partitions lib self store data target_column test_size =
             (Inr parts, self1, store1) \<and>
           fst (scale_partitions lib self1 store1 (fst parts) (fst (snd parts))) = None \<and>
           fst (snd (preprocess_pipeline lib self store fs data target_column test_size)) =
             fst (snd (scale_partitions lib self1 store1 (fst parts) (fst (snd parts))))"
proof -
  obtain out1 self1 store1 where
    p: "prepare_partitions lib self store data target_column test_size = (out1, self1, store1)"
    by (cases "prepare_partitions lib self store data target_column test_size")
  show ?thesis
  proof (cases out1)
    case (Inl e)
    with assms p show ?thesis by (simp add: preprocess_pipeline_def)
  next
    case (Inr parts1)
    obtain X_train X_test y_train y_test where
      parts1: "parts1 = (X_train, X_test, y_train, y_test)"
      by (cases parts1)
    obtain e2 self2 store2 where
      s: "scale_partitions lib self1 store1 X_train X_test = (e2, self2, store2)"
      by (cases "scale_partitions lib self1 store1 X_train X_test")
    show ?thesis
    proof (cases e2)
      case (Some e)
      with assms p Inr parts1 s show ?thesis by (simp add: preprocess_pipeline_def)
    next
      case None
      with assms p Inr parts1 s have "parts = parts1"
        by (auto simp: preprocess_pipeline_def split: prod.splits option.splits)
      with assms p Inr parts1 s None show ?thesis
        by (auto simp: preprocess_pipeline_def split: prod.splits option.splits)
    qed
  qed
qed

lemma scale_partitions_success:
  assumes ok: "fst (scale_partitions lib self store X_train X_test) = None"
  shows "\<exists>F_train p a_train d_train F_test a_test d_test.
           frame_select (store ! X_train) (labels (store ! X_train)) = Inr F_train \<and>
           scaler_statistics lib F_train = Inr p \<and>
           scaler_apply lib p F_train = Inr a_train \<and>
           frame_assign (store ! X_train) (labels (store ! X_train)) a_train = Inr d_train \<and>
           frame_select (store[X_train := d_train] ! X_test) (labels (store ! X_train)) = Inr F_test \<and>
           scaler_apply lib p F_test = Inr a_test \<and>
           frame_assign (store[X_train := d_train] ! X_test) (labels (store ! X_train)) a_test
             = Inr d_test \<and>
           snd (snd (scale_partitions lib self store X_train X_test)) =
             store[X_train := d_train, X_test := d_test] \<and>
           scaler (fst (snd (scale_partitions lib self store X_train X_test))) = Some p"
proof -
  let ?cols = "labels (store ! X_train)"
  obtain F_train where F: "frame_select (store ! X_train) ?cols = Inr F_train"
    using frame_select_all by blast
  from scale_partitions_returns[OF ok F] obtain arr where
    "fst (scaler_fit_transform lib (scaler self) F_train) = Inr arr" by blast
  then obtain p where p: "scaler_statistics lib F_train = Inr p"
    and a: "scaler_apply lib p F_train = Inr arr"
    by (auto simp: scaler_fit_transform_def scaler_fit_def scaler_transform_def split: sum.splits)
  have ft: "scaler_fit_transform lib (scaler self) F_train = (Inr arr, Some p)"
    by (simp add: scaler_fit_transform_def scaler_fit_def scaler_transform_def p a)
  have u1: "scale_partitions lib self store X_train X_test =
      (case frame_assign (store ! X_train) ?cols arr of
         Inl e \<Rightarrow> (Some e, self\<lparr>scaler := Some p\<rparr>, store)
       | Inr d \<Rightarrow>
           (case frame_select (store[X_train := d] ! X_test) ?cols of
              Inl e \<Rightarrow> (Some e, self\<lparr>scaler := Some p\<rparr>, store[X_train := d])
            | Inr test_features \<Rightarrow>
                (case scaler_apply lib p test_features of
                   Inl e \<Rightarrow> (Some e, self\<lparr>scaler := Some p\<rparr>, store[X_train := d])
                 | Inr arr2 \<Rightarrow>
                     (case frame_assign (store[X_train := d] ! X_test) ?cols arr2 of
                        Inl e \<Rightarrow> (Some e, self\<lparr>scaler := Some p\<rparr>, store[X_train := d])
                      | Inr d2 \<Rightarrow>
                          (None, self\<lparr>scaler := Some p\<rparr>, store[X_train := d, X_test := d2])))))"
    by (simp add: scale_partitions_def Let_def F ft scaler_transform_def
        split: sum.splits cong: sum.case_cong)
  from ok obtain d where d: "frame_assign (store ! X_train) ?cols arr = Inr d"
    by (cases "frame_assign (store ! X_train) ?cols arr") (simp_all add: u1)
  from ok obtain F_test where Ft: "frame_select (store[X_train := d] ! X_test) ?cols = Inr F_test"
    by (cases "frame_select (store[X_train := d] ! X_test) ?cols") (simp_all add: u1 d)
  from ok obtain arr2 where a2: "scaler_apply lib p F_test = Inr arr2"
    by (cases "scaler_apply lib p F_test") (simp_all add: u1 d Ft)
  from ok obtain d2 where d2: "frame_assign (store[X_train := d] ! X_test) ?cols arr2 = Inr d2"
    by (cases "frame_assign (store[X_train := d] ! X_test) ?cols arr2") (simp_all add: u1 d Ft a2)
  have "scale_partitions lib self store X_train X_test =
      (None, self\<lparr>scaler := Some p\<rparr>, store[X_train := d, X_test := d2])"
    by (simp add: u1 d Ft a2 d2)
  with F p a d Ft a2 d2 show ?thesis by simp
qed

lemma split_data_addresses:
  "fst (split_data lib store data target_column test_size random_state) = Inr parts \<Longrightarrow>
   fst parts \<noteq> fst (snd parts) \<and>
   fst parts < length (snd (split_data lib store data target_column test_size random_state)) \<and>
   fst (snd parts) < length (snd (split_data lib store data target_column test_size random_state))"
  by (auto simp: split_data_def alloc_def Let_def split: sum.splits prod.splits)

lemma prepare_partitions_addresses:
  assumes "prepare_partitions lib self store data target_column test_size =
             (Inr parts, self1, store1)"
  shows "fst parts \<noteq> fst (snd parts) \<and> fst parts < length store1 \<and>
         fst (snd parts) < length store1"
proof -
  from assms obtain store3 data2 where
    "split_data lib store3 data2 target_column test_size 42 = (Inr parts, store1)"
    by (auto simp: prepare_partitions_def Let_def split: prod.splits sum.splits option.splits)
  with split_data_addresses[of lib store3 data2 target_column test_size 42 parts]
  show ?thesis by simp
qed

lemma preprocess_pipeline_store:
  assumes "fst (preprocess_pipeline lib self store fs data target_column test_size) = Inr parts"
    and "prepare_partitions lib self store data target_column test_size =
             (Inr parts, self1, store1)"
  shows "fst (snd (snd (preprocess_pipeline lib self store fs data target_column test_size))) =
           snd (snd (scale_partitions lib self1 store1 (fst parts) (fst (snd parts))))"
proof -
  obtain X_train X_test y_train y_test where
    parts: "parts = (X_train, X_test, y_train, y_test)"
    by (cases parts)
  obtain e2 self2 store2 where
    s: "scale_partitions lib self1 store1 X_train X_test = (e2, self2, store2)"
    by (cases "scale_partitions lib self1 store1 X_train X_test")
  from assms parts s show ?thesis
    by (auto simp: preprocess_pipeline_def split: prod.splits option.splits)
qed

text \<open>
  Claim C2. In \<^verbatim>\<open>preprocess_pipeline\<close> the scaler is fitted on the train partition only
  and the same fitted transform is applied to both partitions. \<^verbatim>\<open>transform\<close> leaves
  the scaler object as it was; in step 5 the scaler's state after the test partition has
  been transformed is the state that \<^verbatim>\<open>fit_transform\<close> on the train features left.
  Whenever the pipeline returns, there are statistics \<open>p\<close> computed from the train
  features alone, as the split produced them, such that the train table it returns
  holds the train features scaled under \<open>p\<close>, the test table it returns holds the test
  features scaled under the same \<open>p\<close>, no other table of the store has changed in
  step 5, and the scaler holds \<open>p\<close>.
\<close>

theorem scaler_fitted_on_train_partition_only:
  "snd (scaler_transform lib sc X) = sc \<and>
   (\<forall>F. frame_select (store ! X_train) (labels (store ! X_train)) = Inr F \<longrightarrow>
        scaler (fst (snd (scale_partitions lib self store X_train X_test))) =
          snd (scaler_fit_transform lib (scaler self) F)) \<and>
   (\<forall>parts. fst (preprocess_pipeline lib self store fs data target_column test_size) = Inr parts
      \<longrightarrow>
      (\<exists>self1 store1 F_train p a_train d_train F_test a_test d_test.
          prepare_partitions lib self store data target_column test_size =
            (Inr parts, self1, store1) \<and>
          fst parts \<noteq> fst (snd parts) \<and>
          fst parts < length store1 \<and> fst (snd parts) < length store1 \<and>
          frame_select (store1 ! fst parts) (labels (store1 ! fst parts)) = Inr F_train \<and>
          scaler_statistics lib F_train = Inr p \<and>
          scaler_apply lib p F_train = Inr a_train \<and>
          frame_assign (store1 ! fst parts) (labels (store1 ! fst parts)) a_train = Inr d_train \<and>
          frame_select (store1 ! fst (snd parts)) (labels (store1 ! fst parts)) = Inr F_test \<and>
          scaler_apply lib p F_test = Inr a_test \<and>
          frame_assign (store1 ! fst (snd parts)) (labels (store1 ! fst parts)) a_test
            = Inr d_test \<and>
          fst (snd (snd (preprocess_pipeline lib self store fs data target_column test_size)))
            = store1[fst parts := d_train, fst (snd parts) := d_test] \<and>
          scaler (fst (snd (preprocess_pipeline lib self store fs data target_column test_size)))
            = Some p))"
proof (intro conjI allI impI)
  show "snd (scaler_transform lib sc X) = sc"
    by (rule scaler_transform_keeps)
next
  fix F assume "frame_select (store ! X_train) (labels (store ! X_train)) = Inr F"
  then show "scaler (fst (snd (scale_partitions lib self store X_train X_test))) =
          snd (scaler_fit_transform lib (scaler self) F)"
    by (rule scale_partitions_scaler)
next
  fix parts
  assume ret: "fst (preprocess_pipeline lib self store fs data target_column test_size) = Inr parts"
  from preprocess_pipeline_returns[OF ret] obtain self1 store1 where
    prep: "prepare_partitions lib self store data target_column test_size =
             (Inr parts, self1, store1)"
    and ok: "fst (scale_partitions lib self1 store1 (fst parts) (fst (snd parts))) = None"
    and final: "fst (snd (preprocess_pipeline lib self store fs data target_column test_size)) =
             fst (snd (scale_partitions lib self1 store1 (fst parts) (fst (snd parts))))"
    by blast
  note fstore = preprocess_pipeline_store[OF ret prep]
  from prepare_partitions_addresses[OF prep] have ne: "fst parts \<noteq> fst (snd parts)"
    and lt: "fst parts < length store1" "fst (snd parts) < length store1"
    by simp_all
  from scale_partitions_success[OF ok] obtain F_train p a_train d_train F_test a_test d_test where
    s: "frame_select (store1 ! fst parts) (labels (store1 ! fst parts)) = Inr F_train"
      "scaler_statistics lib F_train = Inr p"
      "scaler_apply lib p F_train = Inr a_train"
      "frame_assign (store1 ! fst parts) (labels (store1 ! fst parts)) a_train = Inr d_train"
      "frame_select (store1[fst parts := d_train] ! fst (snd parts)) (labels (store1 ! fst parts))
         = Inr F_test"
      "scaler_apply lib p F_test = Inr a_test"
      "frame_assign (store1[fst parts := d_train] ! fst (snd parts)) (labels (store1 ! fst parts))
         a_test = Inr d_test"
      "snd (snd (scale_partitions lib self1 store1 (fst parts) (fst (snd parts)))) =
         store1[fst parts := d_train, fst (snd parts) := d_test]"
      "scaler (fst (snd (scale_partitions lib self1 store1 (fst parts) (fst (snd parts)))))
         = Some p"
    by blast
  have same: "store1[fst parts := d_train] ! fst (snd parts) = store1 ! fst (snd parts)"
    using ne by simp
  show "\<exists>self1 store1 F_train p a_train d_train F_test a_test d_test.
          prepare_partitions lib self store data target_column test_size =
            (Inr parts, self1, store1) \<and>
          fst parts \<noteq> fst (snd parts) \<and>
          fst parts < length store1 \<and> fst (snd parts) < length store1 \<and>
          frame_select (store1 ! fst parts) (labels (store1 ! fst parts)) = Inr F_train \<and>
          scaler_statistics lib F_train = Inr p \<and>
          scaler_apply lib p F_train = Inr a_train \<and>
          frame_assign (store1 ! fst parts) (labels (store1 ! fst parts)) a_train = Inr d_train \<and>
          frame_select (store1 ! fst (snd parts)) (labels (store1 ! fst parts)) = Inr F_test \<and>
          scaler_apply lib p F_test = Inr a_test \<and>
          frame_assign (store1 ! fst (snd parts)) (labels (store1 ! fst parts)) a_test
            = Inr d_test \<and>
          fst (snd (snd (preprocess_pipeline lib self store fs data target_column test_size)))
            = store1[fst parts := d_train, fst (snd parts) := d_test] \<and>
          scaler (fst (snd (preprocess_pipeline lib self store fs data target_column test_size)))
            = Some p"
    apply (rule exI[of _ self1], rule exI[of _ store1], rule exI[of _ F_train], rule exI[of _ p])
    apply (rule exI[of _ a_train], rule exI[of _ d_train], rule exI[of _ F_test])
    apply (rule exI[of _ a_test], rule exI[of _ d_test])
    using prep ne lt s same final fstore by simp
qed

text \<open>
  A table of three rows, split into two train rows and one test row. The scaler holds
  the statistics of the two train rows, and the test row is scaled with them: the
  stand-in subtracts the number of rows it was fitted on, and the test values \<open>3\<close> and
  \<open>0\<close> become \<open>1\<close> and \<open>-2\<close>.
\<close>

theorem scaler_fitted_on_train_partition_only_witness:
  "fst (preprocess_pipeline stub_preprocessing (new_preprocessor ''data/processed'' ''artifacts'')
          [labelled_frame] writable_disk 0 ''target'' (1 / 5)) =
     Inr (5, 6, \<lparr>dtype = Float64, cells = [Number 1, Number 2]\<rparr>,
          \<lparr>dtype = Float64, cells = [Number 1]\<rparr>) \<and>
   (\<exists>store1 F_train p F_test a_test d_test.
      scaler_statistics stub_preprocessing F_train = Inr p \<and> n_rows F_train = 2 \<and>
      scaler_apply stub_preprocessing p F_test = Inr a_test \<and>
      frame_assign (store1 ! 6) (labels (store1 ! 5)) a_test = Inr d_test \<and>
      fst (snd (snd (preprocess_pipeline stub_preprocessing
                       (new_preprocessor ''data/processed'' ''artifacts'')
                       [labelled_frame] writable_disk 0 ''target'' (1 / 5)))) ! 6 = d_test \<and>
      scaler (fst (snd (preprocess_pipeline stub_preprocessing
                          (new_preprocessor ''data/processed'' ''artifacts'')
                          [labelled_frame] writable_disk 0 ''target'' (1 / 5)))) = Some p) \<and>
   scaler (fst (snd (preprocess_pipeline stub_preprocessing
                       (new_preprocessor ''data/processed'' ''artifacts'')
                       [labelled_frame] writable_disk 0 ''target'' (1 / 5)))) =
     Some ([''height'', ''kind''], 2) \<and>
   snd (snd (prepare_partitions stub_preprocessing
               (new_preprocessor ''data/processed'' ''artifacts'') [labelled_frame] 0 ''target''
               (1 / 5))) ! 6 =
     \<lparr>n_rows = 1,
      columns = [(''height'', \<lparr>dtype = Float64, cells = [Number 3]\<rparr>),
                 (''kind'', \<lparr>dtype = Int64, cells = [Number 0]\<rparr>)]\<rparr> \<and>
   fst (snd (snd (preprocess_pipeline stub_preprocessing
                    (new_preprocessor ''data/processed'' ''artifacts'')
                    [labelled_frame] writable_disk 0 ''target'' (1 / 5)))) ! 6 =
     \<lparr>n_rows = 1,
      columns = [(''height'', \<lparr>dtype = Float64, cells = [Number 1]\<rparr>),
                 (''kind'', \<lparr>dtype = Float64, cells = [Number (- 2)]\<rparr>)]\<rparr> \<and>
   n_rows labelled_frame = 3"
proof -
  let ?run = "preprocess_pipeline stub_preprocessing
      (new_preprocessor ''data/processed'' ''artifacts'') [labelled_frame] writable_disk 0
      ''target'' (1 / 5)"
  have r: "fst ?run = Inr (5, 6, \<lparr>dtype = Float64, cells = [Number 1, Number 2]\<rparr>,
          \<lparr>dtype = Float64, cells = [Number 1]\<rparr>)"
    by code_simp
  have s: "scaler (fst (snd ?run)) = Some ([''height'', ''kind''], 2)"
    by code_simp
  have before: "snd (snd (prepare_partitions stub_preprocessing
               (new_preprocessor ''data/processed'' ''artifacts'') [labelled_frame] 0 ''target''
               (1 / 5))) ! 6 =
     \<lparr>n_rows = 1,
      columns = [(''height'', \<lparr>dtype = Float64, cells = [Number 3]\<rparr>),
                 (''kind'', \<lparr>dtype = Int64, cells = [Number 0]\<rparr>)]\<rparr>"
    by code_simp
  have after: "fst (snd (snd ?run)) ! 6 =
     \<lparr>n_rows = 1,
      columns = [(''height'', \<lparr>dtype = Float64, cells = [Number 1]\<rparr>),
                 (''kind'', \<lparr>dtype = Float64, cells = [Number (- 2)]\<rparr>)]\<rparr>"
    by code_simp
  from scaler_fitted_on_train_partition_only[where lib = stub_preprocessing
      and self = "new_preprocessor ''data/processed'' ''artifacts''" and store = "[labelled_frame]"
      and fs = writable_disk and data = 0 and target_column = "''target''"
      and test_size = "1 / 5", THEN conjunct2, THEN conjunct2, rule_format, OF r]
  obtain store1 F_train p d_train F_test a_test d_test where
    t: "(6::nat) < length store1"
      "scaler_statistics stub_preprocessing F_train = Inr p"
      "scaler_apply stub_preprocessing p F_test = Inr a_test"
      "frame_assign (store1 ! 6) (labels (store1 ! 5)) a_test = Inr d_test"
      "fst (snd (snd ?run)) = store1[5 := d_train, 6 := d_test]"
      "scaler (fst (snd ?run)) = Some p"
    by auto
  from t(1,5) have at6: "fst (snd (snd ?run)) ! 6 = d_test" by simp
  from t(6) s have "p = ([''height'', ''kind''], 2)" by simp
  with t(2) have n: "n_rows F_train = 2"
    by (simp add: stub_preprocessing_def split: if_splits)
  have l: "n_rows labelled_frame = 3" by (simp add: labelled_frame_def)
  from t(2,3,4,6) n at6
  have "\<exists>store1 F_train p F_test a_test d_test.
      scaler_statistics stub_preprocessing F_train = Inr p \<and> n_rows F_train = 2 \<and>
      scaler_apply stub_preprocessing p F_test = Inr a_test \<and>
      frame_assign (store1 ! 6) (labels (store1 ! 5)) a_test = Inr d_test \<and>
      fst (snd (snd ?run)) ! 6 = d_test \<and>
      scaler (fst (snd ?run)) = Some p"
    by blast
  with r s before after l show ?thesis by blast
qed

end
